theory Spec2Isabelle
  imports Main
begin

section \<open>Data model (backend/db.js)\<close>

text \<open>
  The four tables of \<^verbatim>\<open>initDb\<close>. The CHECK constraints on \<^verbatim>\<open>users.role\<close>,
  \<^verbatim>\<open>users.status\<close>, \<^verbatim>\<open>subtasks.status\<close> and \<^verbatim>\<open>subtasks.progress\<close> make these
  columns enumerations; nullable columns are options; timestamps are integers.
  A table is the list of its rows, and a string is the list of its characters.
\<close>

datatype role = Leader | Member

datatype member_status = Pending | Approved | Rejected

datatype subtask_status = St_available | St_assigned | St_taken | St_completed

datatype progress = Pr_not_started | Pr_assigned | Pr_in_progress | Pr_testing | Pr_completed

record user_row =
  u_id :: int
  u_email :: string
  u_password :: string
  u_name :: string
  u_role :: role
  u_team_code :: string
  u_created_at :: int
  u_status :: member_status
  u_approved_by :: "int option"
  u_approved_at :: "int option"
  u_rejected_by :: "int option"
  u_rejected_at :: "int option"
  u_updated_at :: int

record team_row =
  tm_id :: int
  tm_team_code :: string
  tm_team_name :: string
  tm_leader_id :: "int option"
  tm_created_at :: int

record task_row =
  t_id :: int
  t_title :: string
  t_description :: "string option"
  t_team_code :: string
  t_created_by :: "int option"
  t_created_at :: int
  t_status :: string
  t_updated_at :: int

record subtask_row =
  s_id :: int
  s_task_id :: "int option"
  s_title :: string
  s_description :: "string option"
  s_assigned_to :: "int option"
  s_status :: subtask_status
  s_progress :: progress
  s_deadline :: "int option"
  s_created_at :: int
  s_updated_at :: int

record db =
  users :: "user_row list"
  teams :: "team_row list"
  tasks :: "task_row list"
  subtasks :: "subtask_row list"

text \<open>
  A handler answers either \<^verbatim>\<open>res.status(code).json({error})\<close> or
  \<^verbatim>\<open>res.json({message, ...payload})\<close> (status 200).
\<close>

datatype 'a reply = Error_json nat string | Ok_json string 'a

fun reply_code :: "'a reply \<Rightarrow> nat" where
  "reply_code (Error_json c _) = c"
| "reply_code (Ok_json _ _) = 200"

text \<open>
  An id of the request body is absent or an integer. JavaScript's \<^verbatim>\<open>!id\<close> holds for
  an absent id and for 0; \<^verbatim>\<open>parseInt\<close> of an integer is that integer.
\<close>

fun present_id :: "int option \<Rightarrow> int option" where
  "present_id None = None"
| "present_id (Some n) = (if n = 0 then None else Some n)"

fun present_str :: "string option \<Rightarrow> string option" where
  "present_str None = None"
| "present_str (Some s) = (if s = [] then None else Some s)"

section \<open>Statements and constraints of the schema\<close>

text \<open>
  A parameter compared with or written to an INTEGER column is bound as a PostgreSQL
  \<^verbatim>\<open>integer\<close>: the statement raises when the value is outside this range.
\<close>

definition int4 :: "int \<Rightarrow> bool" where
  "int4 n = (- 2147483648 \<le> n \<and> n \<le> 2147483647)"


text \<open>\<^verbatim>\<open>LEFT JOIN\<close>: the matching rows, or one all-NULL row when none matches.\<close>

definition left_join :: "('a \<Rightarrow> bool) \<Rightarrow> 'a list \<Rightarrow> 'a option list" where
  "left_join P xs = (case filter P xs of [] \<Rightarrow> [None] | ys \<Rightarrow> map Some ys)"

text \<open>
  The foreign keys of db.js (\<^verbatim>\<open>assigned_to INTEGER REFERENCES users(id)\<close> and the
  like): a value written to such a column must be the id of a user row.
\<close>

definition user_exists :: "db \<Rightarrow> int \<Rightarrow> bool" where
  "user_exists d uid = (\<exists>u \<in> set (users d). u_id u = uid)"

text \<open>
  \<^verbatim>\<open>UPDATE subtasks SET assigned_to = $1, status = $2, progress = $3 WHERE id = $4
  RETURNING *\<close>, the statement of both \<^verbatim>\<open>take\<close> and \<^verbatim>\<open>assign-to\<close>. It raises
  (\<open>None\<close>) when \<^verbatim>\<open>$1\<close> or \<^verbatim>\<open>$4\<close> is no \<^verbatim>\<open>integer\<close>, and when a row is written and
  \<^verbatim>\<open>assigned_to\<close> references no user; otherwise it gives the returned rows and the new
  database.
\<close>

definition update_subtask_assignment ::
  "db \<Rightarrow> int \<Rightarrow> subtask_status \<Rightarrow> progress \<Rightarrow> int \<Rightarrow> (subtask_row list \<times> db) option" where
  "update_subtask_assignment d uid st pr sid =
     (let written = (\<lambda>s. s\<lparr>s_assigned_to := Some uid, s_status := st, s_progress := pr\<rparr>)
      in if \<not> int4 uid \<or> \<not> int4 sid then None
         else if (\<exists>s \<in> set (subtasks d). s_id s = sid) \<and> \<not> user_exists d uid then None
         else Some (map written (filter (\<lambda>s. s_id s = sid) (subtasks d)),
                    d\<lparr>subtasks := map (\<lambda>s. if s_id s = sid then written s else s) (subtasks d)\<rparr>))"

section \<open>routes/tasks.js\<close>

record subtask_details =
  sd_row :: subtask_row
  sd_assigned_to_name :: "string option"
  sd_assigned_to_email :: "string option"
  sd_task_title :: string
  sd_task_description :: "string option"

text \<open>\<^verbatim>\<open>getSubtaskWithDetails\<close>: \<^verbatim>\<open>rows[0]\<close> of the join, \<^verbatim>\<open>undefined\<close> when it is empty.\<close>

definition getSubtaskWithDetails :: "db \<Rightarrow> int \<Rightarrow> subtask_details option" where
  "getSubtaskWithDetails d subtaskId =
     (case [\<lparr>sd_row = s,
              sd_assigned_to_name = map_option u_name uo,
              sd_assigned_to_email = map_option u_email uo,
              sd_task_title = t_title t,
              sd_task_description = t_description t\<rparr>.
            s \<leftarrow> filter (\<lambda>s. s_id s = subtaskId) (subtasks d),
            uo \<leftarrow> left_join (\<lambda>u. s_assigned_to s = Some (u_id u)) (users d),
            t \<leftarrow> filter (\<lambda>t. s_task_id s = Some (t_id t)) (tasks d)] of
        [] \<Rightarrow> None
      | r # _ \<Rightarrow> Some r)"

text \<open>
  The statements \<^verbatim>\<open>takeSubtask\<close> sends, in the order it sends them: the first four
  kinds on the client it took from the pool, the last one on the pool.
\<close>

datatype statement =
    Sql_begin
  | Sql_select_subtask_for_update int
  | Sql_update_subtask_assignment int subtask_status progress int
  | Sql_commit
  | Sql_rollback
  | Sql_select_subtask_details int

text \<open>
  \<^verbatim>\<open>PUT /subtask/:subtaskId/take\<close>. The result is the reply, the database the request
  leaves behind and the statements sent; every path that ends in ROLLBACK leaves the
  database it was given. \<^verbatim>\<open>SELECT * FROM subtasks WHERE id = $1 FOR UPDATE\<close> raises when
  \<^verbatim>\<open>$1\<close> is no \<^verbatim>\<open>integer\<close>.
\<close>

definition takeSubtask ::
  "db \<Rightarrow> int \<Rightarrow> int option \<Rightarrow> subtask_details option reply \<times> db \<times> statement list" where
  "takeSubtask d subtaskId userId =
     (case present_id userId of
        None \<Rightarrow> (Error_json 400 ''User ID is required'', d, [])
      | Some uid \<Rightarrow>
          if \<not> int4 subtaskId
          then (Error_json 500 ''Internal server error'', d,
                [Sql_begin, Sql_select_subtask_for_update subtaskId, Sql_rollback])
          else
          (case filter (\<lambda>s. s_id s = subtaskId) (subtasks d) of
             [] \<Rightarrow> (Error_json 404 ''Subtask not found'', d,
                    [Sql_begin, Sql_select_subtask_for_update subtaskId, Sql_rollback])
           | subtask # _ \<Rightarrow>
               if s_status subtask \<noteq> St_available
               then (Error_json 400 ''This subtask is no longer available'', d,
                     [Sql_begin, Sql_select_subtask_for_update subtaskId, Sql_rollback])
               else (case update_subtask_assignment d uid St_taken Pr_in_progress subtaskId of
                       None \<Rightarrow>
                         (Error_json 500 ''Internal server error'', d,
                          [Sql_begin, Sql_select_subtask_for_update subtaskId,
                           Sql_update_subtask_assignment uid St_taken Pr_in_progress subtaskId,
                           Sql_rollback])
                     | Some (_, d') \<Rightarrow>
                         (Ok_json ''Subtask assigned to you successfully!''
                            (getSubtaskWithDetails d' subtaskId), d',
                          [Sql_begin, Sql_select_subtask_for_update subtaskId,
                           Sql_update_subtask_assignment uid St_taken Pr_in_progress subtaskId,
                           Sql_commit, Sql_select_subtask_details subtaskId]))))"

text \<open>\<^verbatim>\<open>PUT /subtask/:subtaskId/assign-to\<close>: one statement on the pool, no transaction.\<close>

definition assignSubtask ::
  "db \<Rightarrow> int \<Rightarrow> int option \<Rightarrow> int option \<Rightarrow> subtask_details option reply \<times> db" where
  "assignSubtask d subtaskId userId assignedBy =
     (case (present_id userId, present_id assignedBy) of
        (Some uid, Some _) \<Rightarrow>
          (case update_subtask_assignment d uid St_assigned Pr_assigned subtaskId of
             None \<Rightarrow> (Error_json 500 ''Internal server error'', d)
           | Some ([], _) \<Rightarrow> (Error_json 404 ''Subtask not found'', d)
           | Some (_ # _, d') \<Rightarrow>
               (Ok_json ''Subtask assigned to member successfully''
                  (getSubtaskWithDetails d' subtaskId), d'))
      | _ \<Rightarrow> (Error_json 400 ''User ID and assignedBy are required'', d))"

text \<open>
  The strings that \<^verbatim>\<open>subtasks_progress_check\<close> admits in the \<^verbatim>\<open>progress\<close> column, as
  the values of the column; writing any other string raises.
\<close>

definition progress_of_string :: "string \<Rightarrow> progress option" where
  "progress_of_string p =
     (if p = ''not_started'' then Some Pr_not_started
      else if p = ''assigned'' then Some Pr_assigned
      else if p = ''in_progress'' then Some Pr_in_progress
      else if p = ''testing'' then Some Pr_testing
      else if p = ''completed'' then Some Pr_completed
      else None)"

text \<open>
  \<^verbatim>\<open>PUT /subtask/:subtaskId/progress\<close>. The body's \<^verbatim>\<open>progress\<close> is absent or a string.
  The statements run one after the other on the pool, with no transaction: the two
  SELECTs raise when their id is no \<^verbatim>\<open>integer\<close>, the first UPDATE raises when the
  progress is not one the column admits, and the new status is computed from the row read
  at the start.
\<close>

definition updateProgress ::
  "db \<Rightarrow> int \<Rightarrow> string option \<Rightarrow> int option \<Rightarrow> subtask_details option reply \<times> db" where
  "updateProgress d subtaskId progress userId =
     (case (present_str progress, present_id userId) of
        (Some p, Some uid) \<Rightarrow>
          if \<not> int4 subtaskId then (Error_json 500 ''Internal server error'', d)
          else
          (case [(s, t). s \<leftarrow> filter (\<lambda>s. s_id s = subtaskId) (subtasks d),
                         t \<leftarrow> filter (\<lambda>t. s_task_id s = Some (t_id t)) (tasks d)] of
             [] \<Rightarrow> (Error_json 404 ''Subtask not found'', d)
           | (subtask, task) # _ \<Rightarrow>
               if \<not> int4 uid then (Error_json 500 ''Internal server error'', d)
               else
               (case filter (\<lambda>u. u_id u = uid) (users d) of
                  [] \<Rightarrow> (Error_json 403 ''User not found'', d)
                | user # _ \<Rightarrow>
                    (let isOwner = (s_assigned_to subtask = Some uid);
                         isLeader = (u_role user = Leader \<and> u_team_code user = t_team_code task);
                         isTaskCreator = (t_created_by task = Some uid)
                     in if \<not> isOwner \<and> \<not> isLeader \<and> \<not> isTaskCreator
                        then (Error_json 403 ''Not authorized to update this subtask'', d)
                        else
                          (case progress_of_string p of
                             None \<Rightarrow> (Error_json 500 ''Internal server error'', d)
                           | Some pr \<Rightarrow>
                          (let d1 = d\<lparr>subtasks :=
                                 map (\<lambda>s. if s_id s = subtaskId then s\<lparr>s_progress := pr\<rparr> else s)
                                   (subtasks d)\<rparr>;
                               status =
                                 (if p = ''completed'' then St_completed
                                  else if p = ''in_progress'' \<and> s_status subtask = St_assigned
                                  then St_taken
                                  else s_status subtask);
                               d2 = d1\<lparr>subtasks :=
                                 map (\<lambda>s. if s_id s = subtaskId then s\<lparr>s_status := status\<rparr> else s)
                                   (subtasks d1)\<rparr>
                           in (Ok_json ''Progress updated successfully''
                                 (getSubtaskWithDetails d2 subtaskId), d2))))))
      | _ \<Rightarrow> (Error_json 400 ''Progress and user ID are required'', d))"

subsection \<open>Tasks by status: the two handlers of one path\<close>

text \<open>
  A WHERE condition is three-valued: a comparison with NULL is unknown (\<open>None\<close>), and
  a row is kept only when its condition is true.
\<close>

definition sql_eq :: "'a option \<Rightarrow> 'a \<Rightarrow> bool option" where
  "sql_eq x v = map_option (\<lambda>a. a = v) x"

definition sql_neq :: "'a option \<Rightarrow> 'a \<Rightarrow> bool option" where
  "sql_neq x v = map_option (\<lambda>a. a \<noteq> v) x"

definition sql_is_null :: "'a option \<Rightarrow> bool option" where
  "sql_is_null x = Some (x = None)"

fun sql_or :: "bool option \<Rightarrow> bool option \<Rightarrow> bool option" where
  "sql_or (Some True) _ = Some True"
| "sql_or _ (Some True) = Some True"
| "sql_or (Some False) (Some False) = Some False"
| "sql_or _ _ = None"

definition sql_true :: "bool option \<Rightarrow> bool" where
  "sql_true c = (c = Some True)"

text \<open>\<^verbatim>\<open>statusCondition\<close> of the first handler, on the joined \<^verbatim>\<open>s.status\<close>.\<close>

definition statusCondition_first :: "string \<Rightarrow> subtask_status option \<Rightarrow> bool option" where
  "statusCondition_first status s_st =
     (if status = ''active'' then sql_neq s_st St_completed
      else if status = ''completed'' then sql_eq s_st St_completed
      else Some True)"

text \<open>\<^verbatim>\<open>statusCondition\<close> of the second handler.\<close>

definition statusCondition_second :: "string \<Rightarrow> subtask_status option \<Rightarrow> bool option" where
  "statusCondition_second status s_st =
     (if status = ''active'' then sql_or (sql_neq s_st St_completed) (sql_is_null s_st)
      else if status = ''completed'' then sql_eq s_st St_completed
      else Some True)"

record subtask_listing =
  sl_row :: subtask_row
  sl_assigned_to_name :: "string option"
  sl_assigned_to_email :: "string option"

definition getSubtasksForTask :: "db \<Rightarrow> int \<Rightarrow> subtask_listing list" where
  "getSubtasksForTask d taskId =
     sort_key (\<lambda>r. s_created_at (sl_row r))
       [\<lparr>sl_row = s,
         sl_assigned_to_name = map_option u_name uo,
         sl_assigned_to_email = map_option u_email uo\<rparr>.
        s \<leftarrow> filter (\<lambda>s. s_task_id s = Some taskId) (subtasks d),
        uo \<leftarrow> left_join (\<lambda>u. s_assigned_to s = Some (u_id u)) (users d)]"

record task_listing =
  tl_task :: task_row
  tl_created_by_name :: "string option"
  tl_total_subtasks :: nat
  tl_completed_subtasks :: nat
  tl_subtasks :: "subtask_listing list"

text \<open>
  The query both handlers send, with the handler's condition \<open>cond\<close> spliced in:
  tasks joined with their creator and their subtasks (LEFT JOIN), filtered, made
  DISTINCT, newest first; then each task gets its subtasks.
\<close>

definition tasksByStatusQuery ::
  "(subtask_status option \<Rightarrow> bool option) \<Rightarrow> db \<Rightarrow> string \<Rightarrow> task_listing list" where
  "tasksByStatusQuery cond d teamCode =
     map (\<lambda>(t, created_by_name, total, completed).
            \<lparr>tl_task = t, tl_created_by_name = created_by_name,
             tl_total_subtasks = total, tl_completed_subtasks = completed,
             tl_subtasks = getSubtasksForTask d (t_id t)\<rparr>)
       (sort_key (\<lambda>(t, _). - t_created_at t)
          (remdups
             [(t, map_option u_name uo,
               length (filter (\<lambda>s. s_task_id s = Some (t_id t)) (subtasks d)),
               length (filter (\<lambda>s. s_task_id s = Some (t_id t) \<and> s_status s = St_completed)
                         (subtasks d))).
              t \<leftarrow> tasks d,
              uo \<leftarrow> left_join (\<lambda>u. t_created_by t = Some (u_id u)) (users d),
              so \<leftarrow> left_join (\<lambda>s. s_task_id s = Some (t_id t)) (subtasks d),
              t_team_code t = teamCode \<and> sql_true (cond (map_option s_status so))]))"

text \<open>\<^verbatim>\<open>GET /team/:teamCode/status/:status\<close>, first definition.\<close>

definition listByStatus_first :: "db \<Rightarrow> string \<Rightarrow> string \<Rightarrow> task_listing list" where
  "listByStatus_first d teamCode status =
     tasksByStatusQuery (statusCondition_first status) d teamCode"

text \<open>\<^verbatim>\<open>GET /team/:teamCode/status/:status\<close>, second definition.\<close>

definition listByStatus_second :: "db \<Rightarrow> string \<Rightarrow> string \<Rightarrow> task_listing list" where
  "listByStatus_second d teamCode status =
     tasksByStatusQuery (statusCondition_second status) d teamCode"

section \<open>routes/auth.js\<close>

text \<open>
  \<^verbatim>\<open>bcrypt.hash\<close>, \<^verbatim>\<open>bcrypt.compare\<close>, \<^verbatim>\<open>jwt.sign\<close> and \<^verbatim>\<open>process.env.JWT_SECRET\<close>
  are parameters of the handlers that call them, and so is the clock behind \<^verbatim>\<open>NOW()\<close>
  and \<^verbatim>\<open>CURRENT_TIMESTAMP\<close>.
\<close>









text \<open>
  \<^verbatim>\<open>POST /approve-member\<close>. The UPDATE selects on id, team_code and role; it raises when
  one of the two ids is no \<^verbatim>\<open>integer\<close>, and writing \<^verbatim>\<open>approved_by\<close> raises when it
  references no user.
\<close>

definition approveMember ::
  "int \<Rightarrow> db \<Rightarrow> int option \<Rightarrow> string option \<Rightarrow> int option \<Rightarrow> user_row reply \<times> db" where
  "approveMember now d userId teamCode approvedBy =
     (case (present_id userId, present_str teamCode, present_id approvedBy) of
        (Some uid, Some tc, Some aby) \<Rightarrow>
          (let hit = (\<lambda>u. u_id u = uid \<and> u_team_code u = tc \<and> u_role u = Member);
               written = (\<lambda>u. u\<lparr>u_status := Approved, u_approved_by := Some aby,
                                 u_approved_at := Some now, u_updated_at := now\<rparr>)
           in if int4 uid \<and> int4 aby
              then
                (case filter hit (users d) of
                   [] \<Rightarrow> (Error_json 404 ''User not found or already processed'', d)
                 | row # _ \<Rightarrow>
                     if \<not> user_exists d aby then (Error_json 500 ''Internal server error'', d)
                     else (Ok_json ''Member approved successfully'' (written row),
                           d\<lparr>users := map (\<lambda>u. if hit u then written u else u) (users d)\<rparr>))
              else (Error_json 500 ''Internal server error'', d))
      | _ \<Rightarrow> (Error_json 400 ''Missing required fields'', d))"

text \<open>\<^verbatim>\<open>POST /reject-member\<close>.\<close>

definition rejectMember ::
  "int \<Rightarrow> db \<Rightarrow> int option \<Rightarrow> string option \<Rightarrow> int option \<Rightarrow> user_row reply \<times> db" where
  "rejectMember now d userId teamCode rejectedBy =
     (case (present_id userId, present_str teamCode, present_id rejectedBy) of
        (Some uid, Some tc, Some rby) \<Rightarrow>
          (let hit = (\<lambda>u. u_id u = uid \<and> u_team_code u = tc \<and> u_role u = Member);
               written = (\<lambda>u. u\<lparr>u_status := Rejected, u_rejected_by := Some rby,
                                 u_rejected_at := Some now, u_updated_at := now\<rparr>)
           in if int4 uid \<and> int4 rby
              then
                (case filter hit (users d) of
                   [] \<Rightarrow> (Error_json 404 ''User not found or already processed'', d)
                 | row # _ \<Rightarrow>
                     if \<not> user_exists d rby then (Error_json 500 ''Internal server error'', d)
                     else (Ok_json ''Member request rejected'' (written row),
                           d\<lparr>users := map (\<lambda>u. if hit u then written u else u) (users d)\<rparr>))
              else (Error_json 500 ''Internal server error'', d))
      | _ \<Rightarrow> (Error_json 400 ''Missing required fields'', d))"

text \<open>\<^verbatim>\<open>POST /approve-rejected-member\<close>: this UPDATE also selects on status.\<close>

definition approveRejectedMember ::
  "int \<Rightarrow> db \<Rightarrow> int option \<Rightarrow> string option \<Rightarrow> int option \<Rightarrow> user_row reply \<times> db" where
  "approveRejectedMember now d userId teamCode approvedBy =
     (case (present_id userId, present_str teamCode, present_id approvedBy) of
        (Some uid, Some tc, Some aby) \<Rightarrow>
          (let hit = (\<lambda>u. u_id u = uid \<and> u_team_code u = tc \<and> u_status u = Rejected
                           \<and> u_role u = Member);
               written = (\<lambda>u. u\<lparr>u_status := Approved, u_approved_by := Some aby,
                                 u_approved_at := Some now, u_rejected_by := None,
                                 u_rejected_at := None, u_updated_at := now\<rparr>)
           in if int4 uid \<and> int4 aby
              then
                (case filter hit (users d) of
                   [] \<Rightarrow> (Error_json 404 ''Rejected member not found or already processed'', d)
                 | row # _ \<Rightarrow>
                     if \<not> user_exists d aby then (Error_json 500 ''Internal server error'', d)
                     else (Ok_json ''Member approved successfully'' (written row),
                           d\<lparr>users := map (\<lambda>u. if hit u then written u else u) (users d)\<rparr>))
              else (Error_json 500 ''Internal server error'', d))
      | _ \<Rightarrow> (Error_json 400 ''Missing required fields'', d))"

text \<open>
  \<^verbatim>\<open>UPDATE subtasks SET assigned_to = NULL, status = 'available' WHERE assigned_to = $2\<close>.
\<close>

definition release_subtasks :: "db \<Rightarrow> int \<Rightarrow> db" where
  "release_subtasks d memberId =
     d\<lparr>subtasks :=
         map (\<lambda>s. if s_assigned_to s = Some memberId
                  then s\<lparr>s_assigned_to := None, s_status := St_available\<rparr> else s)
           (subtasks d)\<rparr>"

text \<open>
  A user row is referenced through \<^verbatim>\<open>tasks.created_by\<close>, \<^verbatim>\<open>teams.leader_id\<close>,
  \<^verbatim>\<open>subtasks.assigned_to\<close> and the \<^verbatim>\<open>approved_by\<close> and \<^verbatim>\<open>rejected_by\<close> of other users.
\<close>

definition user_referenced :: "db \<Rightarrow> int \<Rightarrow> bool" where
  "user_referenced d uid =
     ((\<exists>t \<in> set (tasks d). t_created_by t = Some uid) \<or>
      (\<exists>tm \<in> set (teams d). tm_leader_id tm = Some uid) \<or>
      (\<exists>s \<in> set (subtasks d). s_assigned_to s = Some uid) \<or>
      (\<exists>u \<in> set (users d). u_id u \<noteq> uid \<and>
          (u_approved_by u = Some uid \<or> u_rejected_by u = Some uid)))"

text \<open>
  \<^verbatim>\<open>DELETE FROM users WHERE id = $1\<close>: it raises (\<open>None\<close>) when a deleted row is still
  referenced, none of the foreign keys having an ON DELETE action.
\<close>

definition delete_user :: "db \<Rightarrow> int \<Rightarrow> db option" where
  "delete_user d uid =
     (if user_exists d uid \<and> user_referenced d uid then None
      else Some (d\<lparr>users := filter (\<lambda>u. u_id u \<noteq> uid) (users d)\<rparr>))"

text \<open>
  \<^verbatim>\<open>DELETE /team/:teamCode/member/:memberId\<close>. The leader check and the member check
  raise when their id is no \<^verbatim>\<open>integer\<close>. The two writes are one transaction: a failure
  of the second returns the database as it was before the first.
\<close>

definition deleteTeamMember :: "db \<Rightarrow> string \<Rightarrow> int \<Rightarrow> int option \<Rightarrow> unit reply \<times> db" where
  "deleteTeamMember d teamCode memberId leaderId =
     (case present_id leaderId of
        None \<Rightarrow> (Error_json 400 ''Leader ID is required'', d)
      | Some lid \<Rightarrow>
          if \<not> int4 lid then (Error_json 500 ''Internal server error'', d)
          else if filter (\<lambda>u. u_id u = lid \<and> u_team_code u = teamCode \<and> u_role u = Leader)
               (users d) = []
          then (Error_json 403 ''Only team leader can delete members'', d)
          else if memberId = lid then (Error_json 400 ''Cannot delete yourself'', d)
          else if \<not> int4 memberId then (Error_json 500 ''Internal server error'', d)
          else if filter (\<lambda>u. u_id u = memberId \<and> u_team_code u = teamCode \<and> u_role u = Member)
                    (users d) = []
          then (Error_json 404 ''Member not found in your team'', d)
          else (case delete_user (release_subtasks d memberId) memberId of
                  None \<Rightarrow> (Error_json 500 ''Internal server error'', d)
                | Some d' \<Rightarrow> (Ok_json ''Member deleted successfully'' (), d')))"

section \<open>An example database\<close>

text \<open>
  Team AB12CD: the leader Alice, the approved member Bob, the pending member Carol and
  the rejected member Dan. Team ZZ99ZZ: the leader Eve. Task 1 has three subtasks, task 2
  has none, task 3 has one completed subtask. A stored password is \<open>#\<close> followed by
  the clear text.
\<close>

definition ex_user ::
  "int \<Rightarrow> string \<Rightarrow> string \<Rightarrow> role \<Rightarrow> string \<Rightarrow> member_status \<Rightarrow> user_row" where
  "ex_user i mail nm r tc st =
     \<lparr>u_id = i, u_email = mail, u_password = ''#pw'', u_name = nm, u_role = r,
      u_team_code = tc, u_created_at = 1, u_status = st, u_approved_by = None,
      u_approved_at = None, u_rejected_by = None, u_rejected_at = None, u_updated_at = 1\<rparr>"

definition ex_alice :: user_row where
  "ex_alice = ex_user 1 ''a@x.com'' ''Alice'' Leader ''AB12CD'' Approved"

definition ex_bob :: user_row where
  "ex_bob = (ex_user 2 ''b@x.com'' ''Bob'' Member ''AB12CD'' Approved)
              \<lparr>u_approved_by := Some 1, u_approved_at := Some 2, u_updated_at := 2\<rparr>"

definition ex_carol :: user_row where
  "ex_carol = ex_user 3 ''c@x.com'' ''Carol'' Member ''AB12CD'' Pending"

definition ex_dan :: user_row where
  "ex_dan = (ex_user 4 ''d@x.com'' ''Dan'' Member ''AB12CD'' Rejected)
              \<lparr>u_rejected_by := Some 1, u_rejected_at := Some 3, u_updated_at := 3\<rparr>"

definition ex_eve :: user_row where
  "ex_eve = ex_user 5 ''e@y.com'' ''Eve'' Leader ''ZZ99ZZ'' Approved"

definition ex_task :: "int \<Rightarrow> string \<Rightarrow> int \<Rightarrow> task_row" where
  "ex_task i ttl at =
     \<lparr>t_id = i, t_title = ttl, t_description = None, t_team_code = ''AB12CD'',
      t_created_by = Some 1, t_created_at = at, t_status = ''active'', t_updated_at = at\<rparr>"

definition ex_subtask ::
  "int \<Rightarrow> int \<Rightarrow> int option \<Rightarrow> subtask_status \<Rightarrow> progress \<Rightarrow> subtask_row" where
  "ex_subtask i tid who st pr =
     \<lparr>s_id = i, s_task_id = Some tid, s_title = ''part'', s_description = None,
      s_assigned_to = who, s_status = st, s_progress = pr, s_deadline = None,
      s_created_at = 30 + i, s_updated_at = 30 + i\<rparr>"

definition ex_db :: db where
  "ex_db =
     \<lparr>users = [ex_alice, ex_bob, ex_carol, ex_dan, ex_eve],
      teams = [\<lparr>tm_id = 1, tm_team_code = ''AB12CD'', tm_team_name = ''TeamA'',
                tm_leader_id = Some 1, tm_created_at = 1\<rparr>,
               \<lparr>tm_id = 2, tm_team_code = ''ZZ99ZZ'', tm_team_name = ''TeamZ'',
                tm_leader_id = Some 5, tm_created_at = 1\<rparr>],
      tasks = [ex_task 1 ''Release'' 10, ex_task 2 ''Backlog'' 20, ex_task 3 ''Archive'' 5],
      subtasks = [ex_subtask 1 1 None St_available Pr_not_started,
                  ex_subtask 2 1 (Some 2) St_taken Pr_in_progress,
                  ex_subtask 3 1 (Some 2) St_assigned Pr_assigned,
                  ex_subtask 4 3 (Some 2) St_completed Pr_completed]\<rparr>"


text \<open>Carol goes by another name; the ids are those of \<open>ex_db\<close>.\<close>

definition ex_db_renamed :: db where
  "ex_db_renamed =
     ex_db\<lparr>users := [ex_alice, ex_bob, ex_carol\<lparr>u_name := ''Caroline''\<rparr>, ex_dan, ex_eve]\<rparr>"

text \<open>Bob has a fourth subtask, in testing.\<close>

definition ex_db_testing :: db where
  "ex_db_testing =
     ex_db\<lparr>subtasks := subtasks ex_db @ [ex_subtask 5 1 (Some 2) St_taken Pr_testing]\<rparr>"



section \<open>Auxiliary facts\<close>

lemmas ex_defs = ex_db_def ex_user_def ex_alice_def ex_bob_def ex_carol_def ex_dan_def
  ex_eve_def ex_task_def ex_subtask_def

text \<open>Under a key (PRIMARY KEY, UNIQUE) a selection by key value has one row.\<close>

lemma filter_key_single:
  "distinct (map f xs) \<Longrightarrow> x \<in> set xs \<Longrightarrow> filter (\<lambda>y. f y = f x) xs = [x]"
proof (induction xs)
  case Nil
  then show ?case by simp
next
  case (Cons a xs)
  show ?case
  proof (cases "a = x")
    case True
    have "f x \<notin> f ` set xs" using Cons.prems True by simp
    then have "\<forall>y \<in> set xs. f y \<noteq> f x" by (metis imageI)
    then have "filter (\<lambda>y. f y = f x) xs = []" by (simp add: filter_empty_conv)
    with True show ?thesis by simp
  next
    case False
    then have "x \<in> set xs" using Cons.prems by simp
    moreover have "f a \<noteq> f x" using Cons.prems \<open>x \<in> set xs\<close> by auto
    ultimately show ?thesis using Cons by simp
  qed
qed

lemma filter_key_none:
  "\<forall>y \<in> set xs. f y \<noteq> k \<Longrightarrow> filter (\<lambda>y. f y = k) xs = []"
  by (simp add: filter_empty_conv)

lemma map_key_single:
  assumes "distinct (map f xs)" and "x \<in> set xs"
  shows "map (\<lambda>y. if f y = f x then g y else y) xs = map (\<lambda>y. if y = x then g x else y) xs"
proof (rule map_cong[OF refl])
  fix y assume "y \<in> set xs"
  then have "f y = f x \<longleftrightarrow> y = x"
    using assms by (meson distinct_map inj_on_eq_iff)
  then show "(if f y = f x then g y else y) = (if y = x then g x else y)" by auto
qed

lemma ex_pk_subtasks: "distinct (map s_id (subtasks ex_db))"
  by (simp add: ex_defs)

lemma ex_int4: "int4 1" "int4 2" "int4 3" "int4 4" "int4 5" "int4 9" "int4 42" "int4 77"
  "\<not> int4 2147483648"
  by (simp_all add: int4_def)

subsection \<open>The branches of takeSubtask\<close>

lemma takeSubtask_out_of_range:
  assumes "uid \<noteq> 0" and "\<not> int4 sid"
  shows "takeSubtask d sid (Some uid) =
           (Error_json 500 ''Internal server error'', d,
            [Sql_begin, Sql_select_subtask_for_update sid, Sql_rollback])"
  using assms by (simp add: takeSubtask_def)

lemma takeSubtask_missing:
  assumes "uid \<noteq> 0" and "int4 sid" and "\<forall>s \<in> set (subtasks d). s_id s \<noteq> sid"
  shows "takeSubtask d sid (Some uid) =
           (Error_json 404 ''Subtask not found'', d,
            [Sql_begin, Sql_select_subtask_for_update sid, Sql_rollback])"
  using assms by (simp add: takeSubtask_def filter_key_none)

lemma takeSubtask_unavailable:
  assumes "uid \<noteq> 0" and "distinct (map s_id (subtasks d))" and "s \<in> set (subtasks d)"
    and "int4 (s_id s)" and "s_status s \<noteq> St_available"
  shows "takeSubtask d (s_id s) (Some uid) =
           (Error_json 400 ''This subtask is no longer available'', d,
            [Sql_begin, Sql_select_subtask_for_update (s_id s), Sql_rollback])"
  using assms by (simp add: takeSubtask_def filter_key_single)

lemma takeSubtask_write_raises:
  assumes "uid \<noteq> 0" and "distinct (map s_id (subtasks d))" and "s \<in> set (subtasks d)"
    and "int4 (s_id s)" and "s_status s = St_available"
    and "\<not> int4 uid \<or> \<not> user_exists d uid"
  shows "takeSubtask d (s_id s) (Some uid) =
           (Error_json 500 ''Internal server error'', d,
            [Sql_begin, Sql_select_subtask_for_update (s_id s),
             Sql_update_subtask_assignment uid St_taken Pr_in_progress (s_id s),
             Sql_rollback])"
  using assms
  by (auto simp add: takeSubtask_def filter_key_single update_subtask_assignment_def)

lemma takeSubtask_taken:
  assumes "uid \<noteq> 0" and "distinct (map s_id (subtasks d))" and "s \<in> set (subtasks d)"
    and "int4 (s_id s)" and "s_status s = St_available"
    and "int4 uid" and "user_exists d uid"
  shows "takeSubtask d (s_id s) (Some uid) =
     (Ok_json ''Subtask assigned to you successfully!''
        (getSubtaskWithDetails
           (d\<lparr>subtasks := map (\<lambda>x. if x = s then s\<lparr>s_assigned_to := Some uid,
                 s_status := St_taken, s_progress := Pr_in_progress\<rparr> else x) (subtasks d)\<rparr>)
           (s_id s)),
      d\<lparr>subtasks := map (\<lambda>x. if x = s then s\<lparr>s_assigned_to := Some uid,
                 s_status := St_taken, s_progress := Pr_in_progress\<rparr> else x) (subtasks d)\<rparr>,
      [Sql_begin, Sql_select_subtask_for_update (s_id s),
       Sql_update_subtask_assignment uid St_taken Pr_in_progress (s_id s),
       Sql_commit, Sql_select_subtask_details (s_id s)])"
  using assms
  by (auto simp add: takeSubtask_def filter_key_single update_subtask_assignment_def
      map_key_single[where f = s_id and g = "\<lambda>x. x\<lparr>s_assigned_to := Some uid,
                 s_status := St_taken, s_progress := Pr_in_progress\<rparr>"])

lemma user_exists_cong:
  "u_id ` set us' = u_id ` set (users d) \<Longrightarrow>
     user_exists (d\<lparr>users := us'\<rparr>) uid = user_exists d uid"
  unfolding user_exists_def
  by (simp add: image_iff[symmetric] del: image_iff) (metis (no_types) image_iff)

lemma takeSubtask_users_frame:
  assumes "u_id ` set us' = u_id ` set (users d)"
  shows "reply_code (fst (takeSubtask (d\<lparr>users := us'\<rparr>) sid userId)) =
           reply_code (fst (takeSubtask d sid userId)) \<and>
         subtasks (fst (snd (takeSubtask (d\<lparr>users := us'\<rparr>) sid userId))) =
           subtasks (fst (snd (takeSubtask d sid userId))) \<and>
         snd (snd (takeSubtask (d\<lparr>users := us'\<rparr>) sid userId)) =
           snd (snd (takeSubtask d sid userId))"
  using user_exists_cong[OF assms]
  by (simp add: takeSubtask_def update_subtask_assignment_def
      split: option.splits list.splits)

section \<open>Claims\<close>

text \<open>
  C1 (as amended). For every call of takeSubtask with a userId, subtask ids being unique:
  if the subtask id is no PostgreSQL integer, the locked SELECT raises and the call fails
  with 500; if it is one and no subtask has the id, the call fails with 404; if the
  subtask's status is not available, it fails with 400 "no longer available"; in these
  three cases the handler sends BEGIN, the SELECT ... FOR UPDATE of the id and ROLLBACK,
  and the database is unchanged. If the status is available and userId is an integer that
  references an existing user, the call succeeds and exactly that row becomes
  {assigned_to: userId, status: taken, progress: in_progress}, its other fields, the other
  rows and the other tables unchanged; the statements sent are BEGIN, the
  SELECT ... FOR UPDATE of the id, the UPDATE, COMMIT, and then the query of the reply. If
  the status is available and userId is no integer or references no user, the UPDATE
  raises (for a missing user, by the foreign key of \<^verbatim>\<open>assigned_to\<close>), the transaction is
  rolled back, the call fails with 500 and the database is unchanged. So the availability
  check reads the row the locked SELECT returned, and the write follows it before the
  COMMIT of the same transaction.
\<close>

theorem takeSubtask_claim_protocol:
  assumes "uid \<noteq> 0" and "distinct (map s_id (subtasks d))"
  shows "(\<not> int4 sid \<longrightarrow>
            takeSubtask d sid (Some uid) =
              (Error_json 500 ''Internal server error'', d,
               [Sql_begin, Sql_select_subtask_for_update sid, Sql_rollback])) \<and>
         (int4 sid \<and> (\<forall>s \<in> set (subtasks d). s_id s \<noteq> sid) \<longrightarrow>
            takeSubtask d sid (Some uid) =
              (Error_json 404 ''Subtask not found'', d,
               [Sql_begin, Sql_select_subtask_for_update sid, Sql_rollback])) \<and>
         (\<forall>s \<in> set (subtasks d). int4 sid \<and> s_id s = sid \<longrightarrow>
            takeSubtask d sid (Some uid) =
              (if s_status s \<noteq> St_available
               then (Error_json 400 ''This subtask is no longer available'', d,
                     [Sql_begin, Sql_select_subtask_for_update sid, Sql_rollback])
               else if \<not> int4 uid \<or> \<not> user_exists d uid
               then (Error_json 500 ''Internal server error'', d,
                     [Sql_begin, Sql_select_subtask_for_update sid,
                      Sql_update_subtask_assignment uid St_taken Pr_in_progress sid,
                      Sql_rollback])
               else (let d' = d\<lparr>subtasks :=
                              map (\<lambda>x. if x = s
                                       then s\<lparr>s_assigned_to := Some uid, s_status := St_taken,
                                              s_progress := Pr_in_progress\<rparr>
                                       else x) (subtasks d)\<rparr>
                     in (Ok_json ''Subtask assigned to you successfully!''
                           (getSubtaskWithDetails d' sid), d',
                         [Sql_begin, Sql_select_subtask_for_update sid,
                          Sql_update_subtask_assignment uid St_taken Pr_in_progress sid,
                          Sql_commit, Sql_select_subtask_details sid]))))"
proof (intro conjI impI ballI)
  assume "\<not> int4 sid"
  then show "takeSubtask d sid (Some uid) =
              (Error_json 500 ''Internal server error'', d,
               [Sql_begin, Sql_select_subtask_for_update sid, Sql_rollback])"
    using assms(1) takeSubtask_out_of_range by blast
next
  assume "int4 sid \<and> (\<forall>s \<in> set (subtasks d). s_id s \<noteq> sid)"
  then show "takeSubtask d sid (Some uid) =
              (Error_json 404 ''Subtask not found'', d,
               [Sql_begin, Sql_select_subtask_for_update sid, Sql_rollback])"
    using assms(1) takeSubtask_missing by blast
next
  fix s assume s: "s \<in> set (subtasks d)" and "int4 sid \<and> s_id s = sid"
  then have r: "int4 (s_id s)" and e: "s_id s = sid" by simp_all
  note a = assms s r
  show "takeSubtask d sid (Some uid) =
              (if s_status s \<noteq> St_available
               then (Error_json 400 ''This subtask is no longer available'', d,
                     [Sql_begin, Sql_select_subtask_for_update sid, Sql_rollback])
               else if \<not> int4 uid \<or> \<not> user_exists d uid
               then (Error_json 500 ''Internal server error'', d,
                     [Sql_begin, Sql_select_subtask_for_update sid,
                      Sql_update_subtask_assignment uid St_taken Pr_in_progress sid,
                      Sql_rollback])
               else (let d' = d\<lparr>subtasks :=
                              map (\<lambda>x. if x = s
                                       then s\<lparr>s_assigned_to := Some uid, s_status := St_taken,
                                              s_progress := Pr_in_progress\<rparr>
                                       else x) (subtasks d)\<rparr>
                     in (Ok_json ''Subtask assigned to you successfully!''
                           (getSubtaskWithDetails d' sid), d',
                         [Sql_begin, Sql_select_subtask_for_update sid,
                          Sql_update_subtask_assignment uid St_taken Pr_in_progress sid,
                          Sql_commit, Sql_select_subtask_details sid])))"
  proof (cases "s_status s = St_available")
    case False
    then show ?thesis using takeSubtask_unavailable[OF a] e by simp
  next
    case av: True
    show ?thesis
    proof (cases "\<not> int4 uid \<or> \<not> user_exists d uid")
      case True
      then show ?thesis using takeSubtask_write_raises[OF a av True] av e by simp
    next
      case False
      then have "int4 uid" "user_exists d uid" by simp_all
      then show ?thesis using takeSubtask_taken[OF a av] av e False by (simp add: Let_def)
    qed
  qed
qed

text \<open>
  On \<open>ex_db\<close>: an id beyond the integers, an id no subtask has, the taken subtask 2, the
  available subtask 1 taken by Carol, and the same subtask asked for with the ids 42 (no
  such user) and \<open>2^31\<close>.
\<close>

theorem takeSubtask_claim_protocol_witness:
  "takeSubtask ex_db 2147483648 (Some 2) =
     (Error_json 500 ''Internal server error'', ex_db,
      [Sql_begin, Sql_select_subtask_for_update 2147483648, Sql_rollback]) \<and>
   takeSubtask ex_db 9 (Some 2) =
     (Error_json 404 ''Subtask not found'', ex_db,
      [Sql_begin, Sql_select_subtask_for_update 9, Sql_rollback]) \<and>
   takeSubtask ex_db 2 (Some 3) =
     (Error_json 400 ''This subtask is no longer available'', ex_db,
      [Sql_begin, Sql_select_subtask_for_update 2, Sql_rollback]) \<and>
   reply_code (fst (takeSubtask ex_db 1 (Some 3))) = 200 \<and>
   subtasks (fst (snd (takeSubtask ex_db 1 (Some 3)))) =
     [ex_subtask 1 1 (Some 3) St_taken Pr_in_progress,
      ex_subtask 2 1 (Some 2) St_taken Pr_in_progress,
      ex_subtask 3 1 (Some 2) St_assigned Pr_assigned,
      ex_subtask 4 3 (Some 2) St_completed Pr_completed] \<and>
   snd (snd (takeSubtask ex_db 1 (Some 3))) =
     [Sql_begin, Sql_select_subtask_for_update 1,
      Sql_update_subtask_assignment 3 St_taken Pr_in_progress 1,
      Sql_commit, Sql_select_subtask_details 1] \<and>
   takeSubtask ex_db 1 (Some 42) =
     (Error_json 500 ''Internal server error'', ex_db,
      [Sql_begin, Sql_select_subtask_for_update 1,
       Sql_update_subtask_assignment 42 St_taken Pr_in_progress 1, Sql_rollback]) \<and>
   takeSubtask ex_db 1 (Some 2147483648) =
     (Error_json 500 ''Internal server error'', ex_db,
      [Sql_begin, Sql_select_subtask_for_update 1,
       Sql_update_subtask_assignment 2147483648 St_taken Pr_in_progress 1, Sql_rollback])"
proof -
  have nz: "(2::int) \<noteq> 0" "(3::int) \<noteq> 0" "(42::int) \<noteq> 0" "(2147483648::int) \<noteq> 0"
    by simp_all
  have absent: "int4 9 \<and> (\<forall>s \<in> set (subtasks ex_db). s_id s \<noteq> 9)"
    by (simp add: ex_defs int4_def)
  have s2: "ex_subtask 2 1 (Some 2) St_taken Pr_in_progress \<in> set (subtasks ex_db)"
    and s1: "ex_subtask 1 1 None St_available Pr_not_started \<in> set (subtasks ex_db)"
    by (simp_all add: ex_defs)
  have id: "int4 2 \<and> s_id (ex_subtask 2 1 (Some 2) St_taken Pr_in_progress) = 2"
    "int4 1 \<and> s_id (ex_subtask 1 1 None St_available Pr_not_started) = 1"
    by (simp_all add: ex_defs int4_def)
  have st: "s_status (ex_subtask 2 1 (Some 2) St_taken Pr_in_progress) \<noteq> St_available"
    "s_status (ex_subtask 1 1 None St_available Pr_not_started) = St_available"
    by (simp_all add: ex_defs)
  have u3: "\<not> (\<not> int4 3 \<or> \<not> user_exists ex_db 3)"
    and u42: "\<not> int4 42 \<or> \<not> user_exists ex_db 42"
    and ubig: "\<not> int4 2147483648 \<or> \<not> user_exists ex_db 2147483648"
    by (simp_all add: user_exists_def int4_def ex_defs)
  have c1: "takeSubtask ex_db 2147483648 (Some 2) =
     (Error_json 500 ''Internal server error'', ex_db,
      [Sql_begin, Sql_select_subtask_for_update 2147483648, Sql_rollback])"
    using takeSubtask_claim_protocol[OF nz(1) ex_pk_subtasks, of 2147483648] ex_int4(9)
    by blast
  have c2: "takeSubtask ex_db 9 (Some 2) =
     (Error_json 404 ''Subtask not found'', ex_db,
      [Sql_begin, Sql_select_subtask_for_update 9, Sql_rollback])"
    using takeSubtask_claim_protocol[OF nz(1) ex_pk_subtasks, of 9] absent by blast
  have c3: "takeSubtask ex_db 2 (Some 3) =
     (Error_json 400 ''This subtask is no longer available'', ex_db,
      [Sql_begin, Sql_select_subtask_for_update 2, Sql_rollback])"
    using conjunct2[OF conjunct2[OF takeSubtask_claim_protocol[OF nz(2) ex_pk_subtasks, of 2]],
        rule_format, OF s2 id(1)] st(1)
    by simp
  have ok: "takeSubtask ex_db 1 (Some 3) =
     (let d' = ex_db\<lparr>subtasks :=
                  map (\<lambda>x. if x = ex_subtask 1 1 None St_available Pr_not_started
                           then (ex_subtask 1 1 None St_available Pr_not_started)
                                  \<lparr>s_assigned_to := Some 3, s_status := St_taken,
                                   s_progress := Pr_in_progress\<rparr>
                           else x) (subtasks ex_db)\<rparr>
      in (Ok_json ''Subtask assigned to you successfully!'' (getSubtaskWithDetails d' 1), d',
          [Sql_begin, Sql_select_subtask_for_update 1,
           Sql_update_subtask_assignment 3 St_taken Pr_in_progress 1,
           Sql_commit, Sql_select_subtask_details 1]))"
    using conjunct2[OF conjunct2[OF takeSubtask_claim_protocol[OF nz(2) ex_pk_subtasks, of 1]],
        rule_format, OF s1 id(2)] st(2) u3
    by simp
  have c4: "reply_code (fst (takeSubtask ex_db 1 (Some 3))) = 200"
    unfolding ok by (simp add: Let_def)
  have c5: "subtasks (fst (snd (takeSubtask ex_db 1 (Some 3)))) =
     [ex_subtask 1 1 (Some 3) St_taken Pr_in_progress,
      ex_subtask 2 1 (Some 2) St_taken Pr_in_progress,
      ex_subtask 3 1 (Some 2) St_assigned Pr_assigned,
      ex_subtask 4 3 (Some 2) St_completed Pr_completed]"
    unfolding ok by (simp add: Let_def ex_defs)
  have c6: "snd (snd (takeSubtask ex_db 1 (Some 3))) =
     [Sql_begin, Sql_select_subtask_for_update 1,
      Sql_update_subtask_assignment 3 St_taken Pr_in_progress 1,
      Sql_commit, Sql_select_subtask_details 1]"
    unfolding ok by (simp add: Let_def)
  have c7: "takeSubtask ex_db 1 (Some 42) =
     (Error_json 500 ''Internal server error'', ex_db,
      [Sql_begin, Sql_select_subtask_for_update 1,
       Sql_update_subtask_assignment 42 St_taken Pr_in_progress 1, Sql_rollback])"
    using conjunct2[OF conjunct2[OF takeSubtask_claim_protocol[OF nz(3) ex_pk_subtasks, of 1]],
        rule_format, OF s1 id(2)] st(2) u42
    by simp
  have c8: "takeSubtask ex_db 1 (Some 2147483648) =
     (Error_json 500 ''Internal server error'', ex_db,
      [Sql_begin, Sql_select_subtask_for_update 1,
       Sql_update_subtask_assignment 2147483648 St_taken Pr_in_progress 1, Sql_rollback])"
    using conjunct2[OF conjunct2[OF takeSubtask_claim_protocol[OF nz(4) ex_pk_subtasks, of 1]],
        rule_format, OF s1 id(2)] st(2) ubig
    by simp
  show ?thesis using c1 c2 c3 c4 c5 c6 c7 c8 by blast
qed

text \<open>
  C1 as stated fails: subtask 1 is available, no user has id 42, and the call with
  userId 42 does not succeed; it answers 500 and leaves the database as it was.
\<close>

theorem takeSubtask_dangling_user_counterexample:
  "ex_subtask 1 1 None St_available Pr_not_started \<in> set (subtasks ex_db) \<and>
   s_id (ex_subtask 1 1 None St_available Pr_not_started) = 1 \<and>
   s_status (ex_subtask 1 1 None St_available Pr_not_started) = St_available \<and>
   fst (takeSubtask ex_db 1 (Some 42)) = Error_json 500 ''Internal server error'' \<and>
   fst (snd (takeSubtask ex_db 1 (Some 42))) = ex_db"
  by (simp add: takeSubtask_def update_subtask_assignment_def user_exists_def int4_def ex_defs)
text \<open>
  C9 (as amended). takeSubtask checks neither team nor role: for every available subtask
  and every userId referencing an existing user, whatever that user's role and team, the
  call succeeds and assigns the subtask to that user. The handler does query the users
  table, once and after the COMMIT: the reply is the row that \<^verbatim>\<open>getSubtaskWithDetails\<close>
  joins with the assignee's name and email. Nothing before that reads a user row: with
  any other users table holding the same ids the call succeeds alike, writes the same
  subtasks and sends the same statements. Ids are unique and are PostgreSQL integers.
\<close>

theorem takeSubtask_no_membership_check:
  assumes "uid \<noteq> 0" and "distinct (map s_id (subtasks d))"
    and "s \<in> set (subtasks d)" and "int4 (s_id s)" and "s_status s = St_available"
    and "u \<in> set (users d)" and "u_id u = uid" and "int4 (u_id u)"
  shows "takeSubtask d (s_id s) (Some uid) =
           (Ok_json ''Subtask assigned to you successfully!''
              (getSubtaskWithDetails
                 (d\<lparr>subtasks := map (\<lambda>x. if x = s
                                   then s\<lparr>s_assigned_to := Some (u_id u), s_status := St_taken,
                                          s_progress := Pr_in_progress\<rparr>
                                   else x) (subtasks d)\<rparr>) (s_id s)),
            d\<lparr>subtasks := map (\<lambda>x. if x = s
                                   then s\<lparr>s_assigned_to := Some (u_id u), s_status := St_taken,
                                          s_progress := Pr_in_progress\<rparr>
                                   else x) (subtasks d)\<rparr>,
            [Sql_begin, Sql_select_subtask_for_update (s_id s),
             Sql_update_subtask_assignment (u_id u) St_taken Pr_in_progress (s_id s),
             Sql_commit, Sql_select_subtask_details (s_id s)]) \<and>
         (\<forall>us'. u_id ` set us' = u_id ` set (users d) \<longrightarrow>
            reply_code (fst (takeSubtask (d\<lparr>users := us'\<rparr>) (s_id s) (Some uid))) = 200 \<and>
            subtasks (fst (snd (takeSubtask (d\<lparr>users := us'\<rparr>) (s_id s) (Some uid)))) =
              subtasks (fst (snd (takeSubtask d (s_id s) (Some uid)))) \<and>
            snd (snd (takeSubtask (d\<lparr>users := us'\<rparr>) (s_id s) (Some uid))) =
              snd (snd (takeSubtask d (s_id s) (Some uid))))"
proof -
  have ex: "user_exists d uid"
    using assms(6,7) by (auto simp add: user_exists_def)
  have r: "int4 uid" using assms(7,8) by simp
  note taken = takeSubtask_taken[OF assms(1-5) r ex]
  have code: "reply_code (fst (takeSubtask d (s_id s) (Some uid))) = 200"
    by (simp add: taken)
  have first: "takeSubtask d (s_id s) (Some uid) =
           (Ok_json ''Subtask assigned to you successfully!''
              (getSubtaskWithDetails
                 (d\<lparr>subtasks := map (\<lambda>x. if x = s
                                   then s\<lparr>s_assigned_to := Some (u_id u), s_status := St_taken,
                                          s_progress := Pr_in_progress\<rparr>
                                   else x) (subtasks d)\<rparr>) (s_id s)),
            d\<lparr>subtasks := map (\<lambda>x. if x = s
                                   then s\<lparr>s_assigned_to := Some (u_id u), s_status := St_taken,
                                          s_progress := Pr_in_progress\<rparr>
                                   else x) (subtasks d)\<rparr>,
            [Sql_begin, Sql_select_subtask_for_update (s_id s),
             Sql_update_subtask_assignment (u_id u) St_taken Pr_in_progress (s_id s),
             Sql_commit, Sql_select_subtask_details (s_id s)])"
    unfolding assms(7) by (rule taken)
  have frame: "\<forall>us'. u_id ` set us' = u_id ` set (users d) \<longrightarrow>
            reply_code (fst (takeSubtask (d\<lparr>users := us'\<rparr>) (s_id s) (Some uid))) = 200 \<and>
            subtasks (fst (snd (takeSubtask (d\<lparr>users := us'\<rparr>) (s_id s) (Some uid)))) =
              subtasks (fst (snd (takeSubtask d (s_id s) (Some uid)))) \<and>
            snd (snd (takeSubtask (d\<lparr>users := us'\<rparr>) (s_id s) (Some uid))) =
              snd (snd (takeSubtask d (s_id s) (Some uid)))"
    using takeSubtask_users_frame[of _ d "s_id s" "Some uid"] code by simp
  show ?thesis using first frame by (rule conjI)
qed

text \<open>Eve, the leader of team ZZ99ZZ, takes subtask 1 of a task of team AB12CD.\<close>

theorem takeSubtask_no_membership_check_witness:
  "ex_eve \<in> set (users ex_db) \<and> u_role ex_eve = Leader \<and> u_team_code ex_eve = ''ZZ99ZZ'' \<and>
   ex_task 1 ''Release'' 10 \<in> set (tasks ex_db) \<and>
   t_team_code (ex_task 1 ''Release'' 10) = ''AB12CD'' \<and>
   s_task_id (ex_subtask 1 1 None St_available Pr_not_started) = Some 1 \<and>
   takeSubtask ex_db 1 (Some 5) =
     (Ok_json ''Subtask assigned to you successfully!''
        (Some \<lparr>sd_row = ex_subtask 1 1 (Some 5) St_taken Pr_in_progress,
               sd_assigned_to_name = Some ''Eve'', sd_assigned_to_email = Some ''e@y.com'',
               sd_task_title = ''Release'', sd_task_description = None\<rparr>),
      ex_db\<lparr>subtasks :=
        [ex_subtask 1 1 (Some 5) St_taken Pr_in_progress,
         ex_subtask 2 1 (Some 2) St_taken Pr_in_progress,
         ex_subtask 3 1 (Some 2) St_assigned Pr_assigned,
         ex_subtask 4 3 (Some 2) St_completed Pr_completed]\<rparr>,
      [Sql_begin, Sql_select_subtask_for_update 1,
       Sql_update_subtask_assignment 5 St_taken Pr_in_progress 1,
       Sql_commit, Sql_select_subtask_details 1])"
proof -
  have nz: "(5::int) \<noteq> 0" by simp
  have s1: "ex_subtask 1 1 None St_available Pr_not_started \<in> set (subtasks ex_db)"
    and r1: "int4 (s_id (ex_subtask 1 1 None St_available Pr_not_started))"
    and av: "s_status (ex_subtask 1 1 None St_available Pr_not_started) = St_available"
    and eve: "ex_eve \<in> set (users ex_db)" and id: "u_id ex_eve = 5"
    and r5: "int4 (u_id ex_eve)"
    by (simp_all add: ex_defs int4_def)
  have i1: "s_id (ex_subtask 1 1 None St_available Pr_not_started) = 1"
    by (simp add: ex_defs)
  note T = conjunct1[OF takeSubtask_no_membership_check[OF nz ex_pk_subtasks s1 r1 av eve id r5],
      unfolded i1 id]
  have after: "ex_db\<lparr>subtasks :=
                  map (\<lambda>x. if x = ex_subtask 1 1 None St_available Pr_not_started
                           then (ex_subtask 1 1 None St_available Pr_not_started)
                                  \<lparr>s_assigned_to := Some 5, s_status := St_taken,
                                   s_progress := Pr_in_progress\<rparr>
                           else x) (subtasks ex_db)\<rparr> =
     ex_db\<lparr>subtasks :=
        [ex_subtask 1 1 (Some 5) St_taken Pr_in_progress,
         ex_subtask 2 1 (Some 2) St_taken Pr_in_progress,
         ex_subtask 3 1 (Some 2) St_assigned Pr_assigned,
         ex_subtask 4 3 (Some 2) St_completed Pr_completed]\<rparr>"
    by (simp add: ex_defs)
  have details: "getSubtaskWithDetails
      (ex_db\<lparr>subtasks :=
        [ex_subtask 1 1 (Some 5) St_taken Pr_in_progress,
         ex_subtask 2 1 (Some 2) St_taken Pr_in_progress,
         ex_subtask 3 1 (Some 2) St_assigned Pr_assigned,
         ex_subtask 4 3 (Some 2) St_completed Pr_completed]\<rparr>) 1 =
     Some \<lparr>sd_row = ex_subtask 1 1 (Some 5) St_taken Pr_in_progress,
               sd_assigned_to_name = Some ''Eve'', sd_assigned_to_email = Some ''e@y.com'',
               sd_task_title = ''Release'', sd_task_description = None\<rparr>"
    by (simp add: getSubtaskWithDetails_def left_join_def ex_defs)
  have facts: "ex_eve \<in> set (users ex_db)" "u_role ex_eve = Leader"
    "u_team_code ex_eve = ''ZZ99ZZ''" "ex_task 1 ''Release'' 10 \<in> set (tasks ex_db)"
    "t_team_code (ex_task 1 ''Release'' 10) = ''AB12CD''"
    "s_task_id (ex_subtask 1 1 None St_available Pr_not_started) = Some 1"
    by (simp_all add: ex_defs)
  show ?thesis
    using facts T[unfolded after details] by blast
qed

text \<open>
  C9 as stated fails in its last clause: the handler does query the users table. Carol
  takes subtask 1 in \<open>ex_db\<close> and in \<open>ex_db_renamed\<close>, which differ in Carol's name only,
  and the two replies differ in the assignee's name.
\<close>

theorem takeSubtask_reads_users_counterexample:
  "map u_id (users ex_db_renamed) = map u_id (users ex_db) \<and>
   map u_role (users ex_db_renamed) = map u_role (users ex_db) \<and>
   subtasks ex_db_renamed = subtasks ex_db \<and> tasks ex_db_renamed = tasks ex_db \<and>
   fst (takeSubtask ex_db 1 (Some 3)) =
     Ok_json ''Subtask assigned to you successfully!''
        (Some \<lparr>sd_row = ex_subtask 1 1 (Some 3) St_taken Pr_in_progress,
               sd_assigned_to_name = Some ''Carol'', sd_assigned_to_email = Some ''c@x.com'',
               sd_task_title = ''Release'', sd_task_description = None\<rparr>) \<and>
   fst (takeSubtask ex_db_renamed 1 (Some 3)) =
     Ok_json ''Subtask assigned to you successfully!''
        (Some \<lparr>sd_row = ex_subtask 1 1 (Some 3) St_taken Pr_in_progress,
               sd_assigned_to_name = Some ''Caroline'', sd_assigned_to_email = Some ''c@x.com'',
               sd_task_title = ''Release'', sd_task_description = None\<rparr>) \<and>
   fst (takeSubtask ex_db_renamed 1 (Some 3)) \<noteq> fst (takeSubtask ex_db 1 (Some 3))"
  by (simp add: takeSubtask_def update_subtask_assignment_def user_exists_def int4_def
      getSubtaskWithDetails_def left_join_def ex_db_renamed_def ex_defs)

subsection \<open>The branches of assignSubtask\<close>

lemma assignSubtask_invalid:
  assumes "present_id userId = None \<or> present_id assignedBy = None"
  shows "assignSubtask d sid userId assignedBy =
           (Error_json 400 ''User ID and assignedBy are required'', d)"
  using assms by (auto simp add: assignSubtask_def split: option.splits)

lemma assignSubtask_out_of_range:
  assumes "uid \<noteq> 0" and "aby \<noteq> 0" and "\<not> int4 uid \<or> \<not> int4 sid"
  shows "assignSubtask d sid (Some uid) (Some aby) =
           (Error_json 500 ''Internal server error'', d)"
  using assms by (auto simp add: assignSubtask_def update_subtask_assignment_def)

lemma assignSubtask_missing:
  assumes "uid \<noteq> 0" and "aby \<noteq> 0" and "int4 uid" and "int4 sid"
    and "\<forall>s \<in> set (subtasks d). s_id s \<noteq> sid"
  shows "assignSubtask d sid (Some uid) (Some aby) = (Error_json 404 ''Subtask not found'', d)"
  using assms by (simp add: assignSubtask_def update_subtask_assignment_def filter_key_none)

lemma assignSubtask_dangling:
  assumes "uid \<noteq> 0" and "aby \<noteq> 0" and "s \<in> set (subtasks d)" and "\<not> user_exists d uid"
  shows "assignSubtask d (s_id s) (Some uid) (Some aby) =
           (Error_json 500 ''Internal server error'', d)"
  using assms by (auto simp add: assignSubtask_def update_subtask_assignment_def)

lemma assignSubtask_assigned:
  assumes "uid \<noteq> 0" and "aby \<noteq> 0" and "distinct (map s_id (subtasks d))"
    and "s \<in> set (subtasks d)" and "int4 uid" and "int4 (s_id s)" and "user_exists d uid"
  shows "assignSubtask d (s_id s) (Some uid) (Some aby) =
     (Ok_json ''Subtask assigned to member successfully''
        (getSubtaskWithDetails
           (d\<lparr>subtasks := map (\<lambda>x. if x = s then s\<lparr>s_assigned_to := Some uid,
                 s_status := St_assigned, s_progress := Pr_assigned\<rparr> else x) (subtasks d)\<rparr>)
           (s_id s)),
      d\<lparr>subtasks := map (\<lambda>x. if x = s then s\<lparr>s_assigned_to := Some uid,
                 s_status := St_assigned, s_progress := Pr_assigned\<rparr> else x) (subtasks d)\<rparr>)"
  using assms
  by (auto simp add: assignSubtask_def filter_key_single update_subtask_assignment_def
      map_key_single[where f = s_id and g = "\<lambda>x. x\<lparr>s_assigned_to := Some uid,
                 s_status := St_assigned, s_progress := Pr_assigned\<rparr>"])

lemma assignSubtask_any_assigner:
  assumes "aby \<noteq> 0" and "aby' \<noteq> 0"
  shows "assignSubtask d sid userId (Some aby') = assignSubtask d sid userId (Some aby)"
  using assms by (simp add: assignSubtask_def split: option.splits)

text \<open>
  C10 (as amended). assignSubtask validates only that userId and assignedBy are present
  (400 otherwise). assignedBy is used nowhere else: it need not be a leader nor exist, and
  the outcome is the same for every assignedBy. With both present: if userId or the
  subtask id is no PostgreSQL integer, the UPDATE raises and the call fails with 500; if
  they are and no subtask has the id, the call fails with 404; for an existing subtask in
  any prior status, if userId references an existing user the call overwrites exactly that
  row to {assigned_to: userId, status: assigned, progress: assigned} and replies with the
  row that \<^verbatim>\<open>getSubtaskWithDetails\<close> joins with the assignee's name and email (the one read
  of the users table), and if userId references no user the write violates the foreign key
  of \<^verbatim>\<open>assigned_to\<close> and the call fails with 500. Every failure leaves the database
  unchanged.
\<close>

theorem assignSubtask_unconditional_overwrite:
  "((present_id userId = None \<or> present_id assignedBy = None) \<longrightarrow>
      assignSubtask d sid userId assignedBy =
        (Error_json 400 ''User ID and assignedBy are required'', d)) \<and>
   (\<forall>uid aby. uid \<noteq> 0 \<and> aby \<noteq> 0 \<longrightarrow>
      (\<forall>aby'. aby' \<noteq> 0 \<longrightarrow>
         assignSubtask d sid (Some uid) (Some aby') = assignSubtask d sid (Some uid) (Some aby)) \<and>
      (\<not> int4 uid \<or> \<not> int4 sid \<longrightarrow>
         assignSubtask d sid (Some uid) (Some aby) =
           (Error_json 500 ''Internal server error'', d)) \<and>
      (int4 uid \<and> int4 sid \<and> (\<forall>s \<in> set (subtasks d). s_id s \<noteq> sid) \<longrightarrow>
         assignSubtask d sid (Some uid) (Some aby) =
           (Error_json 404 ''Subtask not found'', d)) \<and>
      (\<forall>s \<in> set (subtasks d).
         int4 uid \<and> int4 sid \<and> s_id s = sid \<and> distinct (map s_id (subtasks d)) \<longrightarrow>
         assignSubtask d sid (Some uid) (Some aby) =
           (if \<not> user_exists d uid then (Error_json 500 ''Internal server error'', d)
            else (let d' = d\<lparr>subtasks :=
                           map (\<lambda>x. if x = s
                                    then s\<lparr>s_assigned_to := Some uid, s_status := St_assigned,
                                           s_progress := Pr_assigned\<rparr>
                                    else x) (subtasks d)\<rparr>
                  in (Ok_json ''Subtask assigned to member successfully''
                        (getSubtaskWithDetails d' sid), d')))))"
proof (intro conjI allI impI ballI)
  assume "present_id userId = None \<or> present_id assignedBy = None"
  then show "assignSubtask d sid userId assignedBy =
        (Error_json 400 ''User ID and assignedBy are required'', d)"
    by (rule assignSubtask_invalid)
next
  fix uid aby aby' :: int
  assume "uid \<noteq> 0 \<and> aby \<noteq> 0" and "aby' \<noteq> 0"
  then show "assignSubtask d sid (Some uid) (Some aby') = assignSubtask d sid (Some uid) (Some aby)"
    using assignSubtask_any_assigner by blast
next
  fix uid aby :: int
  assume "uid \<noteq> 0 \<and> aby \<noteq> 0" and "\<not> int4 uid \<or> \<not> int4 sid"
  then show "assignSubtask d sid (Some uid) (Some aby) =
           (Error_json 500 ''Internal server error'', d)"
    using assignSubtask_out_of_range by blast
next
  fix uid aby :: int
  assume "uid \<noteq> 0 \<and> aby \<noteq> 0"
    and "int4 uid \<and> int4 sid \<and> (\<forall>s \<in> set (subtasks d). s_id s \<noteq> sid)"
  then show "assignSubtask d sid (Some uid) (Some aby) =
           (Error_json 404 ''Subtask not found'', d)"
    using assignSubtask_missing by blast
next
  fix uid aby :: int and s
  assume nz: "uid \<noteq> 0 \<and> aby \<noteq> 0" and s: "s \<in> set (subtasks d)"
    and h: "int4 uid \<and> int4 sid \<and> s_id s = sid \<and> distinct (map s_id (subtasks d))"
  show "assignSubtask d sid (Some uid) (Some aby) =
           (if \<not> user_exists d uid then (Error_json 500 ''Internal server error'', d)
            else (let d' = d\<lparr>subtasks :=
                           map (\<lambda>x. if x = s
                                    then s\<lparr>s_assigned_to := Some uid, s_status := St_assigned,
                                           s_progress := Pr_assigned\<rparr>
                                    else x) (subtasks d)\<rparr>
                  in (Ok_json ''Subtask assigned to member successfully''
                        (getSubtaskWithDetails d' sid), d')))"
  proof (cases "user_exists d uid")
    case False
    then show ?thesis
      using assignSubtask_dangling[of uid aby s d] nz s h by simp
  next
    case True
    then show ?thesis
      using assignSubtask_assigned[of uid aby d s] nz s h by (simp add: Let_def)
  qed
qed

text \<open>
  No user has id 77, yet a call naming 77 as assignedBy reassigns the completed
  subtask 4 to Carol.
\<close>

theorem assignSubtask_unconditional_overwrite_witness:
  "assignSubtask ex_db 4 None (Some 1) =
     (Error_json 400 ''User ID and assignedBy are required'', ex_db) \<and>
   assignSubtask ex_db 2147483648 (Some 3) (Some 77) =
     (Error_json 500 ''Internal server error'', ex_db) \<and>
   assignSubtask ex_db 9 (Some 3) (Some 77) = (Error_json 404 ''Subtask not found'', ex_db) \<and>
   \<not> user_exists ex_db 77 \<and>
   assignSubtask ex_db 4 (Some 3) (Some 77) =
     (Ok_json ''Subtask assigned to member successfully''
        (Some \<lparr>sd_row = ex_subtask 4 3 (Some 3) St_assigned Pr_assigned,
               sd_assigned_to_name = Some ''Carol'', sd_assigned_to_email = Some ''c@x.com'',
               sd_task_title = ''Archive'', sd_task_description = None\<rparr>),
      ex_db\<lparr>subtasks :=
        [ex_subtask 1 1 None St_available Pr_not_started,
         ex_subtask 2 1 (Some 2) St_taken Pr_in_progress,
         ex_subtask 3 1 (Some 2) St_assigned Pr_assigned,
         ex_subtask 4 3 (Some 3) St_assigned Pr_assigned]\<rparr>) \<and>
   assignSubtask ex_db 4 (Some 3) (Some 1) = assignSubtask ex_db 4 (Some 3) (Some 77) \<and>
   assignSubtask ex_db 4 (Some 42) (Some 1) = (Error_json 500 ''Internal server error'', ex_db)"
proof -
  note T = assignSubtask_unconditional_overwrite
  have nz: "(3::int) \<noteq> 0 \<and> (77::int) \<noteq> 0" "(42::int) \<noteq> 0 \<and> (1::int) \<noteq> 0" "(1::int) \<noteq> 0"
    by simp_all
  have c1: "assignSubtask ex_db 4 None (Some 1) =
     (Error_json 400 ''User ID and assignedBy are required'', ex_db)"
    using T[of None "Some 1" ex_db 4] by simp
  note T3 = conjunct2[OF T[of "Some 3" "Some 77" ex_db], rule_format, OF nz(1)]
  note T42 = conjunct2[OF T[of "Some 42" "Some 1" ex_db], rule_format, OF nz(2)]
  have big: "\<not> int4 3 \<or> \<not> int4 2147483648" by (simp add: int4_def)
  have c2: "assignSubtask ex_db 2147483648 (Some 3) (Some 77) =
     (Error_json 500 ''Internal server error'', ex_db)"
    using T3[of 2147483648] big by blast
  have absent: "int4 3 \<and> int4 9 \<and> (\<forall>s \<in> set (subtasks ex_db). s_id s \<noteq> 9)"
    by (simp add: ex_defs int4_def)
  have c3: "assignSubtask ex_db 9 (Some 3) (Some 77) = (Error_json 404 ''Subtask not found'', ex_db)"
    using T3[of 9] absent by blast
  have u: "user_exists ex_db 3" "\<not> user_exists ex_db 42" "\<not> user_exists ex_db 77"
    by (simp_all add: user_exists_def ex_defs)
  have s4: "ex_subtask 4 3 (Some 2) St_completed Pr_completed \<in> set (subtasks ex_db)"
    by (simp add: ex_defs)
  have h3: "int4 3 \<and> int4 4 \<and> s_id (ex_subtask 4 3 (Some 2) St_completed Pr_completed) = 4 \<and>
            distinct (map s_id (subtasks ex_db))"
    and h42: "int4 42 \<and> int4 4 \<and> s_id (ex_subtask 4 3 (Some 2) St_completed Pr_completed) = 4 \<and>
            distinct (map s_id (subtasks ex_db))"
    by (simp_all add: ex_defs int4_def)
  have after: "ex_db\<lparr>subtasks :=
                  map (\<lambda>x. if x = ex_subtask 4 3 (Some 2) St_completed Pr_completed
                           then (ex_subtask 4 3 (Some 2) St_completed Pr_completed)
                                  \<lparr>s_assigned_to := Some 3, s_status := St_assigned,
                                   s_progress := Pr_assigned\<rparr>
                           else x) (subtasks ex_db)\<rparr> =
     ex_db\<lparr>subtasks :=
        [ex_subtask 1 1 None St_available Pr_not_started,
         ex_subtask 2 1 (Some 2) St_taken Pr_in_progress,
         ex_subtask 3 1 (Some 2) St_assigned Pr_assigned,
         ex_subtask 4 3 (Some 3) St_assigned Pr_assigned]\<rparr>"
    by (simp add: ex_defs)
  have details: "getSubtaskWithDetails
      (ex_db\<lparr>subtasks :=
        [ex_subtask 1 1 None St_available Pr_not_started,
         ex_subtask 2 1 (Some 2) St_taken Pr_in_progress,
         ex_subtask 3 1 (Some 2) St_assigned Pr_assigned,
         ex_subtask 4 3 (Some 3) St_assigned Pr_assigned]\<rparr>) 4 =
     Some \<lparr>sd_row = ex_subtask 4 3 (Some 3) St_assigned Pr_assigned,
               sd_assigned_to_name = Some ''Carol'', sd_assigned_to_email = Some ''c@x.com'',
               sd_task_title = ''Archive'', sd_task_description = None\<rparr>"
    by (simp add: getSubtaskWithDetails_def left_join_def ex_defs)
  have c5: "assignSubtask ex_db 4 (Some 3) (Some 77) =
     (Ok_json ''Subtask assigned to member successfully''
        (Some \<lparr>sd_row = ex_subtask 4 3 (Some 3) St_assigned Pr_assigned,
               sd_assigned_to_name = Some ''Carol'', sd_assigned_to_email = Some ''c@x.com'',
               sd_task_title = ''Archive'', sd_task_description = None\<rparr>),
      ex_db\<lparr>subtasks :=
        [ex_subtask 1 1 None St_available Pr_not_started,
         ex_subtask 2 1 (Some 2) St_taken Pr_in_progress,
         ex_subtask 3 1 (Some 2) St_assigned Pr_assigned,
         ex_subtask 4 3 (Some 3) St_assigned Pr_assigned]\<rparr>)"
    using conjunct2[OF conjunct2[OF conjunct2[OF T3[of 4]]], rule_format, OF s4 h3] u(1)
    by (simp add: Let_def after details)
  have c6: "assignSubtask ex_db 4 (Some 3) (Some 1) = assignSubtask ex_db 4 (Some 3) (Some 77)"
    using conjunct1[OF T3[of 4]] nz(3) by blast
  have c7: "assignSubtask ex_db 4 (Some 42) (Some 1) =
     (Error_json 500 ''Internal server error'', ex_db)"
    using conjunct2[OF conjunct2[OF conjunct2[OF T42[of 4]]], rule_format, OF s4 h42] u(2)
    by simp
  show ?thesis using c1 c2 c3 u(3) c5 c6 c7 by blast
qed

text \<open>
  C10 as stated fails: subtask 4 exists, both ids are present, no user has id 42, and
  the call does not overwrite the subtask; it answers 500 and leaves the database as it
  was. And the handler does read the users table: in \<open>ex_db_renamed\<close>, which differs
  from \<open>ex_db\<close> in Carol's name only, the reply to assigning subtask 4 to Carol differs.
\<close>

theorem assignSubtask_dangling_user_counterexample:
  "ex_subtask 4 3 (Some 2) St_completed Pr_completed \<in> set (subtasks ex_db) \<and>
   s_id (ex_subtask 4 3 (Some 2) St_completed Pr_completed) = 4 \<and>
   present_id (Some 42) = Some 42 \<and> present_id (Some 1) = Some 1 \<and>
   assignSubtask ex_db 4 (Some 42) (Some 1) = (Error_json 500 ''Internal server error'', ex_db) \<and>
   map u_id (users ex_db_renamed) = map u_id (users ex_db) \<and>
   fst (assignSubtask ex_db_renamed 4 (Some 3) (Some 1)) \<noteq>
     fst (assignSubtask ex_db 4 (Some 3) (Some 1))"
  by (simp add: assignSubtask_def update_subtask_assignment_def user_exists_def int4_def
      getSubtaskWithDetails_def left_join_def ex_db_renamed_def ex_defs)
subsection \<open>The authorized branch of updateProgress\<close>

lemma filter_key_single_sym:
  "distinct (map f xs) \<Longrightarrow> x \<in> set xs \<Longrightarrow> filter (\<lambda>y. f x = f y) xs = [x]"
  using filter_key_single[of f xs x] by (simp add: eq_commute)

lemma progress_of_string_Some:
  assumes "progress_of_string p = Some pr"
  shows "p \<noteq> []" and "p = ''completed'' \<longleftrightarrow> pr = Pr_completed"
    and "p = ''in_progress'' \<longleftrightarrow> pr = Pr_in_progress"
  using assms by (auto simp add: progress_of_string_def split: if_splits)

lemma updateProgress_authorized:
  assumes nz: "uid \<noteq> 0"
    and pk: "distinct (map s_id (subtasks d))" "distinct (map t_id (tasks d))"
            "distinct (map u_id (users d))"
    and s: "s \<in> set (subtasks d)" and t: "t \<in> set (tasks d)" "s_task_id s = Some (t_id t)"
    and u: "u \<in> set (users d)" "u_id u = uid"
    and range: "int4 (s_id s)" "int4 uid"
    and auth: "s_assigned_to s = Some uid \<or> t_created_by t = Some uid \<or>
               (u_role u = Leader \<and> u_team_code u = t_team_code t)"
    and p: "p \<noteq> []"
  shows "updateProgress d (s_id s) (Some p) (Some uid) =
     (case progress_of_string p of
        None \<Rightarrow> (Error_json 500 ''Internal server error'', d)
      | Some pr \<Rightarrow>
         (Ok_json ''Progress updated successfully''
            (getSubtaskWithDetails
              (d\<lparr>subtasks := map (\<lambda>x. if x = s
                  then s\<lparr>s_progress := pr,
                         s_status := (if pr = Pr_completed then St_completed
                                      else if pr = Pr_in_progress \<and> s_status s = St_assigned
                                      then St_taken else s_status s)\<rparr>
                  else x) (subtasks d)\<rparr>) (s_id s)),
          d\<lparr>subtasks := map (\<lambda>x. if x = s
                  then s\<lparr>s_progress := pr,
                         s_status := (if pr = Pr_completed then St_completed
                                      else if pr = Pr_in_progress \<and> s_status s = St_assigned
                                      then St_taken else s_status s)\<rparr>
                  else x) (subtasks d)\<rparr>))"
proof -
  have sel_s: "filter (\<lambda>x. s_id x = s_id s) (subtasks d) = [s]"
    using pk(1) s by (rule filter_key_single)
  have sel_t: "filter (\<lambda>x. s_task_id s = Some (t_id x)) (tasks d) = [t]"
    using filter_key_single_sym[OF pk(2) t(1)] t(2) by simp
  have sel_u: "filter (\<lambda>x. u_id x = uid) (users d) = [u]"
    using filter_key_single[OF pk(3) u(1)] u(2) by simp
  have ok: "\<not> (s_assigned_to s \<noteq> Some uid \<and>
              \<not> (u_role u = Leader \<and> u_team_code u = t_team_code t) \<and>
              t_created_by t \<noteq> Some uid)"
    using auth by blast
  show ?thesis
  proof (cases "progress_of_string p")
    case None
    show ?thesis
      unfolding updateProgress_def
      using nz ok p range None by (simp add: sel_s sel_t sel_u Let_def del: map_map)
  next
    case (Some pr)
    let ?st = "if pr = Pr_completed then St_completed
               else if pr = Pr_in_progress \<and> s_status s = St_assigned then St_taken
               else s_status s"
    have written: "map (\<lambda>x. if s_id x = s_id s then x\<lparr>s_status := ?st\<rparr> else x)
                   (map (\<lambda>x. if s_id x = s_id s then x\<lparr>s_progress := pr\<rparr> else x) (subtasks d))
                 = map (\<lambda>x. if x = s then s\<lparr>s_progress := pr, s_status := ?st\<rparr> else x)
                     (subtasks d)"
    proof -
      have "map (\<lambda>x. if s_id x = s_id s then x\<lparr>s_status := ?st\<rparr> else x)
              (map (\<lambda>x. if s_id x = s_id s then x\<lparr>s_progress := pr\<rparr> else x) (subtasks d))
            = map (\<lambda>x. if s_id x = s_id s then x\<lparr>s_progress := pr, s_status := ?st\<rparr> else x)
                (subtasks d)"
        by (rule nth_equalityI) auto
      also have "\<dots> = map (\<lambda>x. if x = s then s\<lparr>s_progress := pr, s_status := ?st\<rparr> else x)
                         (subtasks d)"
        using map_key_single[OF pk(1) s, of "\<lambda>x. x\<lparr>s_progress := pr, s_status := ?st\<rparr>"] .
      finally show ?thesis .
    qed
    have step: "updateProgress d (s_id s) (Some p) (Some uid) =
      (Ok_json ''Progress updated successfully''
         (getSubtaskWithDetails
            (d\<lparr>subtasks := map (\<lambda>x. if s_id x = s_id s then x\<lparr>s_status := ?st\<rparr> else x)
                   (map (\<lambda>x. if s_id x = s_id s then x\<lparr>s_progress := pr\<rparr> else x) (subtasks d))\<rparr>)
            (s_id s)),
       d\<lparr>subtasks := map (\<lambda>x. if s_id x = s_id s then x\<lparr>s_status := ?st\<rparr> else x)
                   (map (\<lambda>x. if s_id x = s_id s then x\<lparr>s_progress := pr\<rparr> else x) (subtasks d))\<rparr>)"
    proof -
      have st_eq: "(if p = ''completed'' then St_completed
                    else if p = ''in_progress'' \<and> s_status s = St_assigned then St_taken
                    else s_status s) = ?st"
        using progress_of_string_Some(2,3)[OF Some] by simp
      show ?thesis
        unfolding updateProgress_def
        using nz ok p range Some
        by (simp add: sel_s sel_t sel_u Let_def st_eq del: map_map)
    qed
    show ?thesis unfolding step written Some by simp
  qed
qed

text \<open>
  C3 (as amended). For every updateProgress call by an authorized caller (the assignee,
  the creator of the owning task, or a leader of the task's team) on an existing subtask,
  ids being unique PostgreSQL integers: when the given progress is one of not_started,
  assigned, in_progress, testing and completed, the call succeeds, the progress of exactly
  that row becomes the given value, and its status becomes completed if the progress is
  completed, becomes taken if the progress is in_progress and the prior status was
  assigned, and otherwise stays as it was; every other field, row and table is unchanged.
  When the given progress is any other non-empty string, the UPDATE violates
  \<^verbatim>\<open>subtasks_progress_check\<close>, the call fails with 500 and nothing is written.
\<close>

theorem updateProgress_status_mapping:
  assumes "uid \<noteq> 0"
    and "distinct (map s_id (subtasks d))" and "distinct (map t_id (tasks d))"
    and "distinct (map u_id (users d))"
    and "s \<in> set (subtasks d)" and "t \<in> set (tasks d)" and "s_task_id s = Some (t_id t)"
    and "u \<in> set (users d)" and "u_id u = uid"
    and "int4 (s_id s)" and "int4 uid"
    and "s_assigned_to s = Some uid \<or> t_created_by t = Some uid \<or>
         (u_role u = Leader \<and> u_team_code u = t_team_code t)"
  shows "(\<forall>pr. progress_of_string p = Some pr \<longrightarrow>
           updateProgress d (s_id s) (Some p) (Some uid) =
             (Ok_json ''Progress updated successfully''
                (getSubtaskWithDetails
                  (d\<lparr>subtasks := map (\<lambda>x. if x = s
                      then s\<lparr>s_progress := pr,
                             s_status := (if pr = Pr_completed then St_completed
                                          else if pr = Pr_in_progress \<and> s_status s = St_assigned
                                          then St_taken else s_status s)\<rparr>
                      else x) (subtasks d)\<rparr>) (s_id s)),
              d\<lparr>subtasks := map (\<lambda>x. if x = s
                      then s\<lparr>s_progress := pr,
                             s_status := (if pr = Pr_completed then St_completed
                                          else if pr = Pr_in_progress \<and> s_status s = St_assigned
                                          then St_taken else s_status s)\<rparr>
                      else x) (subtasks d)\<rparr>)) \<and>
         (p \<noteq> [] \<and> progress_of_string p = None \<longrightarrow>
           updateProgress d (s_id s) (Some p) (Some uid) =
             (Error_json 500 ''Internal server error'', d))"
proof (intro conjI allI impI)
  fix pr assume v: "progress_of_string p = Some pr"
  show "updateProgress d (s_id s) (Some p) (Some uid) =
             (Ok_json ''Progress updated successfully''
                (getSubtaskWithDetails
                  (d\<lparr>subtasks := map (\<lambda>x. if x = s
                      then s\<lparr>s_progress := pr,
                             s_status := (if pr = Pr_completed then St_completed
                                          else if pr = Pr_in_progress \<and> s_status s = St_assigned
                                          then St_taken else s_status s)\<rparr>
                      else x) (subtasks d)\<rparr>) (s_id s)),
              d\<lparr>subtasks := map (\<lambda>x. if x = s
                      then s\<lparr>s_progress := pr,
                             s_status := (if pr = Pr_completed then St_completed
                                          else if pr = Pr_in_progress \<and> s_status s = St_assigned
                                          then St_taken else s_status s)\<rparr>
                      else x) (subtasks d)\<rparr>)"
    unfolding updateProgress_authorized[OF assms progress_of_string_Some(1)[OF v]] v by simp
next
  assume "p \<noteq> [] \<and> progress_of_string p = None"
  then have p: "p \<noteq> []" and n: "progress_of_string p = None" by simp_all
  show "updateProgress d (s_id s) (Some p) (Some uid) =
             (Error_json 500 ''Internal server error'', d)"
    unfolding updateProgress_authorized[OF assms p] n by simp
qed

lemma ex_pk_tasks: "distinct (map t_id (tasks ex_db))"
  by (simp add: ex_defs)

lemma ex_pk_users: "distinct (map u_id (users ex_db))"
  by (simp add: ex_defs)

text \<open>
  Bob moves his assigned subtask 3 to in_progress (status taken), Alice as leader
  completes the available subtask 1, Bob moves the completed subtask 4 to testing
  (status still completed), and Bob's progress "done" for subtask 3 is refused.
\<close>

theorem updateProgress_status_mapping_witness:
  "subtasks (snd (updateProgress ex_db 3 (Some ''in_progress'') (Some 2))) =
     [ex_subtask 1 1 None St_available Pr_not_started,
      ex_subtask 2 1 (Some 2) St_taken Pr_in_progress,
      ex_subtask 3 1 (Some 2) St_taken Pr_in_progress,
      ex_subtask 4 3 (Some 2) St_completed Pr_completed] \<and>
   subtasks (snd (updateProgress ex_db 1 (Some ''completed'') (Some 1))) =
     [ex_subtask 1 1 None St_completed Pr_completed,
      ex_subtask 2 1 (Some 2) St_taken Pr_in_progress,
      ex_subtask 3 1 (Some 2) St_assigned Pr_assigned,
      ex_subtask 4 3 (Some 2) St_completed Pr_completed] \<and>
   subtasks (snd (updateProgress ex_db 4 (Some ''testing'') (Some 2))) =
     [ex_subtask 1 1 None St_available Pr_not_started,
      ex_subtask 2 1 (Some 2) St_taken Pr_in_progress,
      ex_subtask 3 1 (Some 2) St_assigned Pr_assigned,
      ex_subtask 4 3 (Some 2) St_completed Pr_testing] \<and>
   reply_code (fst (updateProgress ex_db 3 (Some ''in_progress'') (Some 2))) = 200 \<and>
   updateProgress ex_db 3 (Some ''done'') (Some 2) =
     (Error_json 500 ''Internal server error'', ex_db)"
proof -
  have nz: "(2::int) \<noteq> 0" "(1::int) \<noteq> 0" by simp_all
  have rows:
    "ex_subtask 3 1 (Some 2) St_assigned Pr_assigned \<in> set (subtasks ex_db)"
    "ex_subtask 1 1 None St_available Pr_not_started \<in> set (subtasks ex_db)"
    "ex_subtask 4 3 (Some 2) St_completed Pr_completed \<in> set (subtasks ex_db)"
    "ex_task 1 ''Release'' 10 \<in> set (tasks ex_db)"
    "ex_task 3 ''Archive'' 5 \<in> set (tasks ex_db)"
    "ex_bob \<in> set (users ex_db)" "ex_alice \<in> set (users ex_db)"
    by (simp_all add: ex_defs)
  have a: "s_task_id (ex_subtask 3 1 (Some 2) St_assigned Pr_assigned) = Some (t_id (ex_task 1 ''Release'' 10))"
    "s_task_id (ex_subtask 1 1 None St_available Pr_not_started) = Some (t_id (ex_task 1 ''Release'' 10))"
    "s_task_id (ex_subtask 4 3 (Some 2) St_completed Pr_completed) = Some (t_id (ex_task 3 ''Archive'' 5))"
    "u_id ex_bob = 2" "u_id ex_alice = 1"
    by (simp_all add: ex_defs)
  have rg: "int4 (s_id (ex_subtask 3 1 (Some 2) St_assigned Pr_assigned))"
    "int4 (s_id (ex_subtask 1 1 None St_available Pr_not_started))"
    "int4 (s_id (ex_subtask 4 3 (Some 2) St_completed Pr_completed))"
    "int4 2" "int4 1"
    by (simp_all add: ex_defs int4_def)
  have owner: "s_assigned_to (ex_subtask 3 1 (Some 2) St_assigned Pr_assigned) = Some 2 \<or>
      t_created_by (ex_task 1 ''Release'' 10) = Some 2 \<or>
      (u_role ex_bob = Leader \<and> u_team_code ex_bob = t_team_code (ex_task 1 ''Release'' 10))"
    by (simp add: ex_defs)
  have leader: "s_assigned_to (ex_subtask 1 1 None St_available Pr_not_started) = Some 1 \<or>
      t_created_by (ex_task 1 ''Release'' 10) = Some 1 \<or>
      (u_role ex_alice = Leader \<and> u_team_code ex_alice = t_team_code (ex_task 1 ''Release'' 10))"
    by (simp add: ex_defs)
  have owner4: "s_assigned_to (ex_subtask 4 3 (Some 2) St_completed Pr_completed) = Some 2 \<or>
      t_created_by (ex_task 3 ''Archive'' 5) = Some 2 \<or>
      (u_role ex_bob = Leader \<and> u_team_code ex_bob = t_team_code (ex_task 3 ''Archive'' 5))"
    by (simp add: ex_defs)
  have r1: "s_id (ex_subtask 3 1 (Some 2) St_assigned Pr_assigned) = 3"
    "s_id (ex_subtask 1 1 None St_available Pr_not_started) = 1"
    "s_id (ex_subtask 4 3 (Some 2) St_completed Pr_completed) = 4"
    by (simp_all add: ex_defs)
  have pv: "progress_of_string ''in_progress'' = Some Pr_in_progress"
    "progress_of_string ''completed'' = Some Pr_completed"
    "progress_of_string ''testing'' = Some Pr_testing"
    "''done'' \<noteq> [] \<and> progress_of_string ''done'' = None"
    by (simp_all add: progress_of_string_def)
  note T3 = updateProgress_status_mapping[OF nz(1) ex_pk_subtasks ex_pk_tasks ex_pk_users
        rows(1) rows(4) a(1) rows(6) a(4) rg(1) rg(4) owner, unfolded r1]
  note T1 = updateProgress_status_mapping[OF nz(2) ex_pk_subtasks ex_pk_tasks ex_pk_users
        rows(2) rows(4) a(2) rows(7) a(5) rg(2) rg(5) leader, unfolded r1]
  note T4 = updateProgress_status_mapping[OF nz(1) ex_pk_subtasks ex_pk_tasks ex_pk_users
        rows(3) rows(5) a(3) rows(6) a(4) rg(3) rg(4) owner4, unfolded r1]
  note w1 = conjunct1[OF T3[of "''in_progress''"], rule_format, OF pv(1)]
  note w2 = conjunct1[OF T1[of "''completed''"], rule_format, OF pv(2)]
  note w3 = conjunct1[OF T4[of "''testing''"], rule_format, OF pv(3)]
  note w4 = conjunct2[OF T3[of "''done''"], rule_format, OF pv(4)]
  have c1: "subtasks (snd (updateProgress ex_db 3 (Some ''in_progress'') (Some 2))) =
     [ex_subtask 1 1 None St_available Pr_not_started,
      ex_subtask 2 1 (Some 2) St_taken Pr_in_progress,
      ex_subtask 3 1 (Some 2) St_taken Pr_in_progress,
      ex_subtask 4 3 (Some 2) St_completed Pr_completed]"
    unfolding w1 by (simp add: ex_defs)
  have c2: "subtasks (snd (updateProgress ex_db 1 (Some ''completed'') (Some 1))) =
     [ex_subtask 1 1 None St_completed Pr_completed,
      ex_subtask 2 1 (Some 2) St_taken Pr_in_progress,
      ex_subtask 3 1 (Some 2) St_assigned Pr_assigned,
      ex_subtask 4 3 (Some 2) St_completed Pr_completed]"
    unfolding w2 by (simp add: ex_defs)
  have c3: "subtasks (snd (updateProgress ex_db 4 (Some ''testing'') (Some 2))) =
     [ex_subtask 1 1 None St_available Pr_not_started,
      ex_subtask 2 1 (Some 2) St_taken Pr_in_progress,
      ex_subtask 3 1 (Some 2) St_assigned Pr_assigned,
      ex_subtask 4 3 (Some 2) St_completed Pr_testing]"
    unfolding w3 by (simp add: ex_defs)
  have c4: "reply_code (fst (updateProgress ex_db 3 (Some ''in_progress'') (Some 2))) = 200"
    unfolding w1 by simp
  show ?thesis using c1 c2 c3 c4 w4 by blast
qed

text \<open>
  C3 as stated fails: Bob is the assignee of subtask 3, and his call with the progress
  "done" does not set the progress field to the given value; it answers 500 and leaves
  the database as it was.
\<close>

theorem updateProgress_invalid_progress_counterexample:
  "ex_subtask 3 1 (Some 2) St_assigned Pr_assigned \<in> set (subtasks ex_db) \<and>
   s_id (ex_subtask 3 1 (Some 2) St_assigned Pr_assigned) = 3 \<and>
   s_assigned_to (ex_subtask 3 1 (Some 2) St_assigned Pr_assigned) = Some 2 \<and>
   ex_bob \<in> set (users ex_db) \<and> u_id ex_bob = 2 \<and>
   updateProgress ex_db 3 (Some ''done'') (Some 2) =
     (Error_json 500 ''Internal server error'', ex_db)"
  by (simp add: updateProgress_def progress_of_string_def int4_def ex_defs)
subsection \<open>The branches of deleteTeamMember\<close>


lemma deleteTeamMember_success:
  assumes "reply_code (fst (deleteTeamMember d tc mid leaderId)) = 200"
  shows "snd (deleteTeamMember d tc mid leaderId) =
           d\<lparr>subtasks := map (\<lambda>s. if s_assigned_to s = Some mid
                                   then s\<lparr>s_assigned_to := None, s_status := St_available\<rparr>
                                   else s) (subtasks d),
             users := filter (\<lambda>u. u_id u \<noteq> mid) (users d)\<rparr>"
  using assms
  by (auto simp add: deleteTeamMember_def delete_user_def release_subtasks_def
      split: option.splits if_splits)













text \<open>
  C8. A successful deleteTeamMember writes, in the subtasks table, only assigned_to and
  status of the rows assigned to the member: the columns progress, id, task_id, title,
  description, deadline, created_at and updated_at are the same row by row. Hence every
  subtask that was assigned to the member is afterwards unassigned and available with the
  progress it had, whatever that progress was.
\<close>

theorem deleteTeamMember_release_frame:
  assumes "reply_code (fst (deleteTeamMember d tc mid leaderId)) = 200"
  shows "subtasks (snd (deleteTeamMember d tc mid leaderId)) =
           map (\<lambda>s. if s_assigned_to s = Some mid
                    then s\<lparr>s_assigned_to := None, s_status := St_available\<rparr> else s)
             (subtasks d) \<and>
         map s_progress (subtasks (snd (deleteTeamMember d tc mid leaderId))) =
           map s_progress (subtasks d) \<and>
         map s_id (subtasks (snd (deleteTeamMember d tc mid leaderId))) =
           map s_id (subtasks d) \<and>
         map s_task_id (subtasks (snd (deleteTeamMember d tc mid leaderId))) =
           map s_task_id (subtasks d) \<and>
         map s_title (subtasks (snd (deleteTeamMember d tc mid leaderId))) =
           map s_title (subtasks d) \<and>
         map s_description (subtasks (snd (deleteTeamMember d tc mid leaderId))) =
           map s_description (subtasks d) \<and>
         map s_deadline (subtasks (snd (deleteTeamMember d tc mid leaderId))) =
           map s_deadline (subtasks d) \<and>
         map s_created_at (subtasks (snd (deleteTeamMember d tc mid leaderId))) =
           map s_created_at (subtasks d) \<and>
         map s_updated_at (subtasks (snd (deleteTeamMember d tc mid leaderId))) =
           map s_updated_at (subtasks d) \<and>
         (\<forall>s \<in> set (subtasks d). s_assigned_to s = Some mid \<longrightarrow>
            s\<lparr>s_assigned_to := None, s_status := St_available\<rparr>
              \<in> set (subtasks (snd (deleteTeamMember d tc mid leaderId))) \<and>
            s_progress (s\<lparr>s_assigned_to := None, s_status := St_available\<rparr>) = s_progress s)"
proof -
  let ?rel = "\<lambda>s. if s_assigned_to s = Some mid
                    then s\<lparr>s_assigned_to := None, s_status := St_available\<rparr> else s"
  have sub: "subtasks (snd (deleteTeamMember d tc mid leaderId)) = map ?rel (subtasks d)"
    unfolding deleteTeamMember_success[OF assms] by simp
  have cols: "s_progress (?rel s) = s_progress s" "s_id (?rel s) = s_id s"
    "s_task_id (?rel s) = s_task_id s" "s_title (?rel s) = s_title s"
    "s_description (?rel s) = s_description s" "s_deadline (?rel s) = s_deadline s"
    "s_created_at (?rel s) = s_created_at s" "s_updated_at (?rel s) = s_updated_at s" for s
    by simp_all
  have released: "\<forall>s \<in> set (subtasks d). s_assigned_to s = Some mid \<longrightarrow>
            s\<lparr>s_assigned_to := None, s_status := St_available\<rparr> \<in> set (map ?rel (subtasks d)) \<and>
            s_progress (s\<lparr>s_assigned_to := None, s_status := St_available\<rparr>) = s_progress s"
  proof (intro ballI impI conjI)
    fix s assume "s \<in> set (subtasks d)" and "s_assigned_to s = Some mid"
    then have "?rel s \<in> ?rel ` set (subtasks d)" and "?rel s = s\<lparr>s_assigned_to := None, s_status := St_available\<rparr>"
      by simp_all
    then show "s\<lparr>s_assigned_to := None, s_status := St_available\<rparr> \<in> set (map ?rel (subtasks d))"
      by simp
  next
    fix s show "s_progress (s\<lparr>s_assigned_to := None, s_status := St_available\<rparr>) = s_progress s"
      by simp
  qed
  show ?thesis
    unfolding sub map_map comp_def cols using released by simp
qed


text \<open>
  Bob's subtasks were in_progress, assigned, completed and testing; after his deletion
  all four are available and keep that progress.
\<close>

theorem deleteTeamMember_release_frame_witness:
  "reply_code (fst (deleteTeamMember ex_db_testing ''AB12CD'' 2 (Some 1))) = 200 \<and>
   subtasks (snd (deleteTeamMember ex_db_testing ''AB12CD'' 2 (Some 1))) =
     [ex_subtask 1 1 None St_available Pr_not_started,
      ex_subtask 2 1 None St_available Pr_in_progress,
      ex_subtask 3 1 None St_available Pr_assigned,
      ex_subtask 4 3 None St_available Pr_completed,
      ex_subtask 5 1 None St_available Pr_testing]"
proof -
  have ok: "reply_code (fst (deleteTeamMember ex_db_testing ''AB12CD'' 2 (Some 1))) = 200"
    by (simp add: deleteTeamMember_def delete_user_def user_referenced_def user_exists_def
        release_subtasks_def int4_def ex_db_testing_def ex_defs)
  have "subtasks (snd (deleteTeamMember ex_db_testing ''AB12CD'' 2 (Some 1))) =
          map (\<lambda>s. if s_assigned_to s = Some 2
                    then s\<lparr>s_assigned_to := None, s_status := St_available\<rparr> else s)
            (subtasks ex_db_testing)"
    using deleteTeamMember_release_frame[OF ok] by blast
  also have "\<dots> = [ex_subtask 1 1 None St_available Pr_not_started,
      ex_subtask 2 1 None St_available Pr_in_progress,
      ex_subtask 3 1 None St_available Pr_assigned,
      ex_subtask 4 3 None St_available Pr_completed,
      ex_subtask 5 1 None St_available Pr_testing]"
    by (simp add: ex_db_testing_def ex_defs)
  finally show ?thesis using ok by simp
qed

subsection \<open>The branches of registerMember\<close>














subsection \<open>The branches of login\<close>







subsection \<open>The rows the two status handlers select\<close>

lemma left_join_iff:
  "so \<in> set (left_join P xs) \<longleftrightarrow>
     (so = None \<and> (\<forall>x \<in> set xs. \<not> P x)) \<or> (\<exists>x \<in> set xs. P x \<and> so = Some x)"
proof (cases "filter P xs")
  case Nil
  then have "\<forall>x \<in> set xs. \<not> P x" by (simp add: filter_empty_conv)
  then show ?thesis using Nil by (auto simp add: left_join_def)
next
  case (Cons y ys)
  then have "y \<in> set (filter P xs)" by simp
  then have "\<exists>x \<in> set xs. P x" by auto
  moreover have "set (left_join P xs) = Some ` set (filter P xs)"
    using Cons by (simp add: left_join_def)
  ultimately show ?thesis by auto
qed

lemma left_join_nonempty: "\<exists>so. so \<in> set (left_join P xs)"
  by (cases "filter P xs") (auto simp add: left_join_def)

lemma active_first_iff:
  "sql_true (statusCondition_first ''active'' st) \<longleftrightarrow> (\<exists>a. st = Some a \<and> a \<noteq> St_completed)"
  by (cases st) (auto simp add: statusCondition_first_def sql_true_def sql_neq_def)

lemma active_second_iff:
  "sql_true (statusCondition_second ''active'' st) \<longleftrightarrow>
     st = None \<or> (\<exists>a. st = Some a \<and> a \<noteq> St_completed)"
  by (cases st)
     (auto simp add: statusCondition_second_def sql_true_def sql_neq_def sql_is_null_def)

lemma statusCondition_other:
  "status \<noteq> ''active'' \<Longrightarrow> statusCondition_first status = statusCondition_second status"
  by (rule ext) (simp add: statusCondition_first_def statusCondition_second_def)

lemma set_tasksByStatusQuery:
  "row \<in> set (tasksByStatusQuery cond d tc) \<longleftrightarrow>
     (\<exists>t \<in> set (tasks d). \<exists>uo \<in> set (left_join (\<lambda>u. t_created_by t = Some (u_id u)) (users d)).
        t_team_code t = tc \<and>
        (\<exists>so \<in> set (left_join (\<lambda>s. s_task_id s = Some (t_id t)) (subtasks d)).
           sql_true (cond (map_option s_status so))) \<and>
        row = \<lparr>tl_task = t, tl_created_by_name = map_option u_name uo,
               tl_total_subtasks =
                 length (filter (\<lambda>s. s_task_id s = Some (t_id t)) (subtasks d)),
               tl_completed_subtasks =
                 length (filter (\<lambda>s. s_task_id s = Some (t_id t) \<and> s_status s = St_completed)
                           (subtasks d)),
               tl_subtasks = getSubtasksForTask d (t_id t)\<rparr>)"
  unfolding tasksByStatusQuery_def
  by (auto simp add: image_iff)

lemma selected_active_first:
  "(\<exists>so \<in> set (left_join (\<lambda>s. s_task_id s = Some tid) (subtasks d)).
      sql_true (statusCondition_first ''active'' (map_option s_status so))) \<longleftrightarrow>
   (\<exists>s \<in> set (subtasks d). s_task_id s = Some tid \<and> s_status s \<noteq> St_completed)"
  unfolding Bex_def active_first_iff left_join_iff by auto

lemma selected_active_second:
  "(\<exists>so \<in> set (left_join (\<lambda>s. s_task_id s = Some tid) (subtasks d)).
      sql_true (statusCondition_second ''active'' (map_option s_status so))) \<longleftrightarrow>
   (\<exists>s \<in> set (subtasks d). s_task_id s = Some tid \<and> s_status s \<noteq> St_completed) \<or>
   (\<forall>s \<in> set (subtasks d). s_task_id s \<noteq> Some tid)"
  unfolding Bex_def active_second_iff left_join_iff by auto



lemma sql_true_always: "\<exists>so \<in> set (left_join P xs). sql_true (Some True)"
  using left_join_nonempty[of P xs] by (simp add: sql_true_def Bex_def)

lemma query_row_iff:
  "row \<in> set (tasksByStatusQuery c d tc) \<longleftrightarrow>
     row \<in> set (tasksByStatusQuery (\<lambda>_. Some True) d tc) \<and>
     (\<exists>so \<in> set (left_join (\<lambda>s. s_task_id s = Some (t_id (tl_task row))) (subtasks d)).
        sql_true (c (map_option s_status so)))"
  (is "?L \<longleftrightarrow> ?A \<and> ?S")
proof
  assume ?L
  then obtain t uo where t: "t \<in> set (tasks d)"
    and uo: "uo \<in> set (left_join (\<lambda>u. t_created_by t = Some (u_id u)) (users d))"
    and team: "t_team_code t = tc"
    and sel: "\<exists>so \<in> set (left_join (\<lambda>s. s_task_id s = Some (t_id t)) (subtasks d)).
               sql_true (c (map_option s_status so))"
    and row: "row = \<lparr>tl_task = t, tl_created_by_name = map_option u_name uo,
               tl_total_subtasks =
                 length (filter (\<lambda>s. s_task_id s = Some (t_id t)) (subtasks d)),
               tl_completed_subtasks =
                 length (filter (\<lambda>s. s_task_id s = Some (t_id t) \<and> s_status s = St_completed)
                           (subtasks d)),
               tl_subtasks = getSubtasksForTask d (t_id t)\<rparr>"
    unfolding set_tasksByStatusQuery by blast
  have tt: "tl_task row = t" unfolding row by simp
  have ?A
    unfolding set_tasksByStatusQuery
    using t uo team row sql_true_always[of "\<lambda>s. s_task_id s = Some (t_id t)" "subtasks d"]
    by blast
  moreover have ?S unfolding tt using sel .
  ultimately show "?A \<and> ?S" ..
next
  assume as: "?A \<and> ?S"
  then obtain t uo where t: "t \<in> set (tasks d)"
    and uo: "uo \<in> set (left_join (\<lambda>u. t_created_by t = Some (u_id u)) (users d))"
    and team: "t_team_code t = tc"
    and row: "row = \<lparr>tl_task = t, tl_created_by_name = map_option u_name uo,
               tl_total_subtasks =
                 length (filter (\<lambda>s. s_task_id s = Some (t_id t)) (subtasks d)),
               tl_completed_subtasks =
                 length (filter (\<lambda>s. s_task_id s = Some (t_id t) \<and> s_status s = St_completed)
                           (subtasks d)),
               tl_subtasks = getSubtasksForTask d (t_id t)\<rparr>"
    unfolding set_tasksByStatusQuery by blast
  have tt: "tl_task row = t" unfolding row by simp
  have sel: "\<exists>so \<in> set (left_join (\<lambda>s. s_task_id s = Some (t_id t)) (subtasks d)).
               sql_true (c (map_option s_status so))"
    using as unfolding tt by blast
  show ?L
    unfolding set_tasksByStatusQuery using t uo team sel row by blast
qed

lemma active_first_iff_row:
  "row \<in> set (listByStatus_first d tc ''active'') \<longleftrightarrow>
     row \<in> set (tasksByStatusQuery (\<lambda>_. Some True) d tc) \<and>
     (\<exists>s \<in> set (subtasks d). s_task_id s = Some (t_id (tl_task row)) \<and>
        s_status s \<noteq> St_completed)"
  unfolding listByStatus_first_def
  by (subst query_row_iff) (simp only: selected_active_first)

lemma active_second_iff_row:
  "row \<in> set (listByStatus_second d tc ''active'') \<longleftrightarrow>
     row \<in> set (tasksByStatusQuery (\<lambda>_. Some True) d tc) \<and>
     ((\<exists>s \<in> set (subtasks d). s_task_id s = Some (t_id (tl_task row)) \<and>
         s_status s \<noteq> St_completed) \<or>
      (\<forall>s \<in> set (subtasks d). s_task_id s \<noteq> Some (t_id (tl_task row))))"
  unfolding listByStatus_second_def
  by (subst query_row_iff) (simp only: selected_active_second)

lemma unfiltered_has_task:
  assumes "t \<in> set (tasks d)" and "t_team_code t = tc"
  shows "\<exists>row \<in> set (tasksByStatusQuery (\<lambda>_. Some True) d tc). tl_task row = t"
proof -
  obtain uo where uo: "uo \<in> set (left_join (\<lambda>u. t_created_by t = Some (u_id u)) (users d))"
    using left_join_nonempty by blast
  let ?row = "\<lparr>tl_task = t, tl_created_by_name = map_option u_name uo,
               tl_total_subtasks =
                 length (filter (\<lambda>s. s_task_id s = Some (t_id t)) (subtasks d)),
               tl_completed_subtasks =
                 length (filter (\<lambda>s. s_task_id s = Some (t_id t) \<and> s_status s = St_completed)
                           (subtasks d)),
               tl_subtasks = getSubtasksForTask d (t_id t)\<rparr>"
  have "?row \<in> set (tasksByStatusQuery (\<lambda>_. Some True) d tc)"
    unfolding set_tasksByStatusQuery
    using assms uo sql_true_always[of "\<lambda>s. s_task_id s = Some (t_id t)" "subtasks d"]
    by blast
  moreover have "tl_task ?row = t" by simp
  ultimately show ?thesis by blast
qed

text \<open>
  C7. The two handlers of \<^verbatim>\<open>GET /team/:teamCode/status/:status\<close> return the same list
  for the filter completed (and for every status other than active). Under the filter
  active they agree on every row whose task has at least one subtask, and every row of the
  first is a row of the second. They disagree exactly on tasks with zero subtasks: a row
  of the second that the first lacks has a task without subtasks, and every task of the
  team without subtasks is listed by the second and not by the first.
\<close>

theorem listByStatus_first_second:
  "(\<forall>status. status \<noteq> ''active'' \<longrightarrow>
      listByStatus_first d tc status = listByStatus_second d tc status) \<and>
   listByStatus_first d tc ''completed'' = listByStatus_second d tc ''completed'' \<and>
   (\<forall>row :: task_listing.
      (\<exists>s \<in> set (subtasks d). s_task_id s = Some (t_id (tl_task row))) \<longrightarrow>
      (row \<in> set (listByStatus_first d tc ''active'') \<longleftrightarrow>
       row \<in> set (listByStatus_second d tc ''active''))) \<and>
   (\<forall>row \<in> set (listByStatus_first d tc ''active'').
      row \<in> set (listByStatus_second d tc ''active'')) \<and>
   (\<forall>row \<in> set (listByStatus_second d tc ''active'').
      row \<notin> set (listByStatus_first d tc ''active'') \<longrightarrow>
      (\<forall>s \<in> set (subtasks d). s_task_id s \<noteq> Some (t_id (tl_task row)))) \<and>
   (\<forall>t \<in> set (tasks d).
      t_team_code t = tc \<and> (\<forall>s \<in> set (subtasks d). s_task_id s \<noteq> Some (t_id t)) \<longrightarrow>
      t \<in> tl_task ` set (listByStatus_second d tc ''active'') \<and>
      t \<notin> tl_task ` set (listByStatus_first d tc ''active''))"
proof (intro conjI allI impI ballI)
  fix status :: string assume "status \<noteq> ''active''"
  then show "listByStatus_first d tc status = listByStatus_second d tc status"
    by (simp add: listByStatus_first_def listByStatus_second_def statusCondition_other)
next
  show "listByStatus_first d tc ''completed'' = listByStatus_second d tc ''completed''"
    by (simp add: listByStatus_first_def listByStatus_second_def statusCondition_other)
next
  fix row :: task_listing
  assume "\<exists>s \<in> set (subtasks d). s_task_id s = Some (t_id (tl_task row))"
  then show "row \<in> set (listByStatus_first d tc ''active'') \<longleftrightarrow>
       row \<in> set (listByStatus_second d tc ''active'')"
    unfolding active_first_iff_row active_second_iff_row by blast
next
  fix row assume "row \<in> set (listByStatus_first d tc ''active'')"
  then show "row \<in> set (listByStatus_second d tc ''active'')"
    unfolding active_first_iff_row active_second_iff_row by blast
next
  fix row s
  assume "row \<in> set (listByStatus_second d tc ''active'')"
    and "row \<notin> set (listByStatus_first d tc ''active'')"
    and "s \<in> set (subtasks d)"
  then show "s_task_id s \<noteq> Some (t_id (tl_task row))"
    unfolding active_first_iff_row active_second_iff_row by blast
next
  fix t assume t: "t \<in> set (tasks d)"
    and a: "t_team_code t = tc \<and> (\<forall>s \<in> set (subtasks d). s_task_id s \<noteq> Some (t_id t))"
  obtain row where row: "row \<in> set (tasksByStatusQuery (\<lambda>_. Some True) d tc)" "tl_task row = t"
    using unfiltered_has_task[OF t conjunct1[OF a]] by blast
  have "row \<in> set (listByStatus_second d tc ''active'')"
    unfolding active_second_iff_row using row a by blast
  then show "t \<in> tl_task ` set (listByStatus_second d tc ''active'')"
    using row(2) by (metis imageI)
  show "t \<notin> tl_task ` set (listByStatus_first d tc ''active'')"
  proof
    assume "t \<in> tl_task ` set (listByStatus_first d tc ''active'')"
    then obtain r where "r \<in> set (listByStatus_first d tc ''active'')" "tl_task r = t" by auto
    then show False unfolding active_first_iff_row using a by blast
  qed
qed


text \<open>
  In the example, task 1 has open subtasks, task 2 has none and the subtask of task 3 is
  completed: the first handler lists task 1 as active, the second lists tasks 2 and 1.
\<close>

theorem listByStatus_first_second_witness:
  "map (\<lambda>r. t_id (tl_task r)) (listByStatus_first ex_db ''AB12CD'' ''active'') = [1] \<and>
   map (\<lambda>r. t_id (tl_task r)) (listByStatus_second ex_db ''AB12CD'' ''active'') = [2, 1] \<and>
   map (\<lambda>r. t_id (tl_task r)) (listByStatus_first ex_db ''AB12CD'' ''completed'') = [3] \<and>
   listByStatus_second ex_db ''AB12CD'' ''completed'' =
     listByStatus_first ex_db ''AB12CD'' ''completed'' \<and>
   ex_task 2 ''Backlog'' 20 \<in> tl_task ` set (listByStatus_second ex_db ''AB12CD'' ''active'') \<and>
   ex_task 2 ''Backlog'' 20 \<notin> tl_task ` set (listByStatus_first ex_db ''AB12CD'' ''active'')"
proof -
  note T = listByStatus_first_second[of ex_db "''AB12CD''"]
  have c1: "map (\<lambda>r. t_id (tl_task r)) (listByStatus_first ex_db ''AB12CD'' ''active'') = [1]"
    by (simp add: listByStatus_first_def tasksByStatusQuery_def statusCondition_first_def
        left_join_def sql_neq_def sql_eq_def sql_true_def ex_defs)
  have c2: "map (\<lambda>r. t_id (tl_task r)) (listByStatus_second ex_db ''AB12CD'' ''active'') = [2, 1]"
    by (simp add: listByStatus_second_def tasksByStatusQuery_def statusCondition_second_def
        left_join_def sql_neq_def sql_eq_def sql_is_null_def sql_true_def ex_defs)
  have c3: "map (\<lambda>r. t_id (tl_task r)) (listByStatus_first ex_db ''AB12CD'' ''completed'') = [3]"
    by (simp add: listByStatus_first_def tasksByStatusQuery_def statusCondition_first_def
        left_join_def sql_neq_def sql_eq_def sql_true_def ex_defs)
  have c4: "listByStatus_second ex_db ''AB12CD'' ''completed'' =
     listByStatus_first ex_db ''AB12CD'' ''completed''"
    using T by simp
  have t2: "ex_task 2 ''Backlog'' 20 \<in> set (tasks ex_db)"
    and none: "t_team_code (ex_task 2 ''Backlog'' 20) = ''AB12CD'' \<and>
      (\<forall>s \<in> set (subtasks ex_db). s_task_id s \<noteq> Some (t_id (ex_task 2 ''Backlog'' 20)))"
    by (simp_all add: ex_defs)
  have c5: "ex_task 2 ''Backlog'' 20 \<in> tl_task ` set (listByStatus_second ex_db ''AB12CD'' ''active'') \<and>
   ex_task 2 ''Backlog'' 20 \<notin> tl_task ` set (listByStatus_first ex_db ''AB12CD'' ''active'')"
    using T t2 none by blast
  show ?thesis using c1 c2 c3 c4 c5 by blast
qed

text \<open>
  C2, at the inputs where the code departs from it. The claim: approve-member,
  reject-member and approve-rejected-member each select on the user's current status, so
  that a second approval, or the rejection of an approved member, writes no row and is
  answered 404. The code: approve-member and reject-member select on id, team_code and
  role only. Rejecting the approved member Bob answers 200 and makes him rejected;
  approving Carol a second time answers 200 again and overwrites approved_by and
  approved_at. The sibling approve-rejected-member, which does select on status, answers
  404 for the approved Bob and for the pending Carol and changes nothing.
\<close>

theorem approve_reject_ignore_current_status:
  "map u_status (users ex_db) = [Approved, Approved, Pending, Rejected, Approved] \<and>
   reply_code (fst (rejectMember 9 ex_db (Some 2) (Some ''AB12CD'') (Some 1))) = 200 \<and>
   map u_status (users (snd (rejectMember 9 ex_db (Some 2) (Some ''AB12CD'') (Some 1)))) =
     [Approved, Rejected, Pending, Rejected, Approved] \<and>
   reply_code (fst (approveMember 8 ex_db (Some 3) (Some ''AB12CD'') (Some 1))) = 200 \<and>
   reply_code (fst (approveMember 9
       (snd (approveMember 8 ex_db (Some 3) (Some ''AB12CD'') (Some 1)))
       (Some 3) (Some ''AB12CD'') (Some 5))) = 200 \<and>
   map u_approved_by (users (snd (approveMember 9
       (snd (approveMember 8 ex_db (Some 3) (Some ''AB12CD'') (Some 1)))
       (Some 3) (Some ''AB12CD'') (Some 5)))) =
     [None, Some 1, Some 5, None, None] \<and>
   map u_approved_at (users (snd (approveMember 9
       (snd (approveMember 8 ex_db (Some 3) (Some ''AB12CD'') (Some 1)))
       (Some 3) (Some ''AB12CD'') (Some 5)))) =
     [None, Some 2, Some 9, None, None] \<and>
   approveRejectedMember 9 ex_db (Some 2) (Some ''AB12CD'') (Some 1) =
     (Error_json 404 ''Rejected member not found or already processed'', ex_db) \<and>
   approveRejectedMember 9 ex_db (Some 3) (Some ''AB12CD'') (Some 1) =
     (Error_json 404 ''Rejected member not found or already processed'', ex_db)"
  by (simp add: approveMember_def rejectMember_def approveRejectedMember_def user_exists_def
      int4_def ex_defs)

end
